theory Spec2Isabelle
  imports Main "HOL-Library.Multiset" "HOL-Library.List_Lexorder" "HOL-Library.Sublist"
begin

section \<open>The book catalogue of \<^verbatim>\<open>biblioteca_maria_orm.py\<close>\<close>

text \<open>
  The program keeps one table \<^verbatim>\<open>libros\<close> in MariaDB through SQLAlchemy and drives it
  from a console menu. The database server, its driver and the object-relational mapper
  are not part of the repository, so the embedding fixes the part of their behaviour the
  program relies on, and says so where it does:
  \<^item> the table is a list of rows (in the order the engine scans them) together with the
    \<^verbatim>\<open>AUTO_INCREMENT\<close> counter;
  \<^item> a statement that violates \<^verbatim>\<open>NOT NULL\<close> or a duplicate primary key raises
    \<^verbatim>\<open>IntegrityError\<close>; a string longer than its \<^verbatim>\<open>String(n)\<close> column is stored cut to
    \<open>n\<close> characters when only spaces are cut off, and raises \<^verbatim>\<open>DataError\<close> otherwise
    (the server's default strict mode); columns are checked in the order of the table;
  \<^item> \<^verbatim>\<open>session.rollback()\<close> restores the rows as they were before the statement;
  \<^item> what the server's configuration and the driver decide is a parameter of the
    operations that depend on it: the collation of the text columns, for sorting and for
    \<^verbatim>\<open>LIKE\<close>, and the wording \<^verbatim>\<open>str(e)\<close> of an exception;
  \<^item> a Python string is a list of characters, and a value handed to the store is a string
    or \<^verbatim>\<open>None\<close>, that is a \<^typ>\<open>string option\<close>.
\<close>

subsection \<open>The model class \<^verbatim>\<open>Libro\<close> and the table\<close>

text \<open>
  \<^verbatim>\<open>id = Column(Integer, primary_key=True, autoincrement=True)\<close>,
  \<^verbatim>\<open>titulo = Column(String(255), nullable=False)\<close>,
  \<^verbatim>\<open>autor = Column(String(255), nullable=False)\<close>,
  \<^verbatim>\<open>genero = Column(String(100))\<close>,
  \<^verbatim>\<open>estado = Column(String(20), nullable=False)\<close>.
  A stored row has a string in every \<^verbatim>\<open>NOT NULL\<close> column; only \<^verbatim>\<open>genero\<close> may hold
  \<^verbatim>\<open>None\<close>.
\<close>

record libro =
  libro_id :: int
  titulo :: string
  autor :: string
  genero :: "string option"
  estado :: string

datatype db_error = IntegrityError | DataError | FlushError

record store =
  rows :: "libro list"
  next_id :: int

definition empty_store :: store where
  "empty_store = \<lparr>rows = [], next_id = 1\<rparr>"

text \<open>\<^verbatim>\<open>ESTADOS_LECTURA = ('Le\'ido', 'No le\'ido')\<close>; the accented i is the character 237.\<close>

definition estado_leido :: string where
  "estado_leido = ''Le'' @ [CHR 0xED] @ ''do''"

definition estado_no_leido :: string where
  "estado_no_leido = ''No le'' @ [CHR 0xED] @ ''do''"

definition ESTADOS_LECTURA :: "string list" where
  "ESTADOS_LECTURA = [estado_leido, estado_no_leido]"

text \<open>
  Whether a value is within what its \<^verbatim>\<open>Column\<close> declares, \<open>nullable\<close> and the length
  bound, and the violation if it is not.
\<close>

definition col_check :: "bool \<Rightarrow> nat \<Rightarrow> string option \<Rightarrow> db_error option" where
  "col_check nullable n v =
     (case v of
        None \<Rightarrow> if nullable then None else Some IntegrityError
      | Some x \<Rightarrow> if n < length x then Some DataError else None)"

text \<open>The first violation among the columns, in the order the list gives them.\<close>

fun first_error :: "db_error option list \<Rightarrow> db_error option" where
  "first_error [] = None"
| "first_error (None # cs) = first_error cs"
| "first_error (Some e # cs) = Some e"

text \<open>
  What the server does with a value for a \<^verbatim>\<open>VARCHAR(n)\<close> column. A string within the
  length is stored as it is. Of a longer string the server cuts off the excess when it is
  only spaces, and stores the rest; any other excess is the error 1406, a
  \<^verbatim>\<open>DataError\<close>. \<^verbatim>\<open>None\<close> is stored in a nullable column and is the error 1048, an
  \<^verbatim>\<open>IntegrityError\<close>, in a \<^verbatim>\<open>NOT NULL\<close> column.
\<close>

definition varchar :: "nat \<Rightarrow> string \<Rightarrow> db_error + string" where
  "varchar n x =
     (if length x \<le> n then Inr x
      else if list_all (\<lambda>c. c = CHR '' '') (drop n x) then Inr (take n x)
      else Inl DataError)"

definition col_not_null :: "nat \<Rightarrow> string option \<Rightarrow> db_error + string" where
  "col_not_null n v = (case v of None \<Rightarrow> Inl IntegrityError | Some x \<Rightarrow> varchar n x)"

definition col_nullable :: "nat \<Rightarrow> string option \<Rightarrow> db_error + string option" where
  "col_nullable n v =
     (case v of
        None \<Rightarrow> Inr None
      | Some x \<Rightarrow> (case varchar n x of Inl err \<Rightarrow> Inl err | Inr y \<Rightarrow> Inr (Some y)))"

text \<open>
  The values of a new row, column by column in the order of the table; the first
  violation is the error of the statement.
\<close>

definition fila_nueva ::
  "string option \<Rightarrow> string option \<Rightarrow> string option \<Rightarrow> string option
     \<Rightarrow> db_error + (string \<times> string \<times> string option \<times> string)" where
  "fila_nueva t a g e =
     (case col_not_null 255 t of
        Inl err \<Rightarrow> Inl err
      | Inr t' \<Rightarrow>
          (case col_not_null 255 a of
             Inl err \<Rightarrow> Inl err
           | Inr a' \<Rightarrow>
               (case col_nullable 100 g of
                  Inl err \<Rightarrow> Inl err
                | Inr g' \<Rightarrow>
                    (case col_not_null 20 e of
                       Inl err \<Rightarrow> Inl err
                     | Inr e' \<Rightarrow> Inr (t', a', g', e')))))"

definition ids :: "store \<Rightarrow> int list" where
  "ids s = map libro_id (rows s)"

text \<open>
  The state the table is in when rows only enter through \<^verbatim>\<open>insertar_libro\<close>: primary
  keys are unique and below the counter.
\<close>

definition wf_store :: "store \<Rightarrow> bool" where
  "wf_store s = (distinct (ids s) \<and> list_all (\<lambda>i. i < next_id s) (ids s))"

subsection \<open>\<^verbatim>\<open>LibroDBManager\<close>\<close>

text \<open>
  \<^verbatim>\<open>insertar_libro\<close>: \<^verbatim>\<open>session.add\<close> and \<^verbatim>\<open>commit\<close>. \<^verbatim>\<open>IntegrityError\<close> is caught
  (rollback, \<^verbatim>\<open>False\<close>); any other exception leaves the method, which is the \<open>Inl\<close>
  result.
\<close>

definition insertar_libro ::
  "store \<Rightarrow> string option \<Rightarrow> string option \<Rightarrow> string option \<Rightarrow> string option
     \<Rightarrow> store \<times> (db_error + bool)" where
  "insertar_libro s t a g e =
     (case fila_nueva t a g e of
        Inl IntegrityError \<Rightarrow> (s, Inr False)
      | Inl err \<Rightarrow> (s, Inl err)
      | Inr (t', a', g', e') \<Rightarrow>
          if next_id s \<in> set (ids s) then (s, Inr False)
          else (s\<lparr>rows := rows s @
                     [\<lparr>libro_id = next_id s, titulo = t', autor = a',
                       genero = g', estado = e'\<rparr>],
                   next_id := next_id s + 1\<rparr>, Inr True))"

text \<open>\<^verbatim>\<open>obtener_libro_por_id\<close>: \<^verbatim>\<open>session.get(Libro, libro_id)\<close>, \<^verbatim>\<open>None\<close> when absent.\<close>

definition obtener_libro_por_id :: "store \<Rightarrow> int \<Rightarrow> libro option" where
  "obtener_libro_por_id s i = find (\<lambda>r. libro_id r = i) (rows s)"

text \<open>
  What the server takes as an integer for the primary key when it is handed a string: an
  optional sign and decimal digits.
\<close>

definition digit_val :: "char \<Rightarrow> nat option" where
  "digit_val c =
     (let n = (of_char c :: nat) in if 48 \<le> n \<and> n \<le> 57 then Some (n - 48) else None)"

fun digits_val :: "nat \<Rightarrow> string \<Rightarrow> nat option" where
  "digits_val acc [] = Some acc"
| "digits_val acc (c # cs) =
     (case digit_val c of None \<Rightarrow> None | Some d \<Rightarrow> digits_val (10 * acc + d) cs)"

definition decimal_int :: "string \<Rightarrow> int option" where
  "decimal_int s =
     (case s of
        [] \<Rightarrow> None
      | c # cs \<Rightarrow>
          if c = CHR ''-'' \<and> cs \<noteq> [] then map_option (\<lambda>n. - int n) (digits_val 0 cs)
          else if c = CHR ''+'' \<and> cs \<noteq> [] then map_option int (digits_val 0 cs)
          else map_option int (digits_val 0 s))"

text \<open>
  \<^verbatim>\<open>setattr(libro, campo, nuevo_valor)\<close> followed by \<^verbatim>\<open>session.commit()\<close>, on the row
  \<open>l\<close> of the session. A string column takes the value as an insertion would. The
  primary key takes a new value when it is an integer no other row has. Any other name is
  not a mapped column: the object gets a plain attribute and the commit writes nothing.
\<close>

definition setattr_commit ::
  "store \<Rightarrow> libro \<Rightarrow> string \<Rightarrow> string option \<Rightarrow> db_error + libro" where
  "setattr_commit s l campo v =
     (if campo = ''titulo'' then
        (case col_not_null 255 v of Inl err \<Rightarrow> Inl err | Inr x \<Rightarrow> Inr (l\<lparr>titulo := x\<rparr>))
      else if campo = ''autor'' then
        (case col_not_null 255 v of Inl err \<Rightarrow> Inl err | Inr x \<Rightarrow> Inr (l\<lparr>autor := x\<rparr>))
      else if campo = ''genero'' then
        (case col_nullable 100 v of Inl err \<Rightarrow> Inl err | Inr x \<Rightarrow> Inr (l\<lparr>genero := x\<rparr>))
      else if campo = ''estado'' then
        (case col_not_null 20 v of Inl err \<Rightarrow> Inl err | Inr x \<Rightarrow> Inr (l\<lparr>estado := x\<rparr>))
      else if campo = ''id'' then
        (case v of
           None \<Rightarrow> Inl FlushError
         | Some x \<Rightarrow>
             (case decimal_int x of
                None \<Rightarrow> Inl DataError
              | Some n \<Rightarrow>
                  if n \<noteq> libro_id l \<and> n \<in> set (ids s) then Inl IntegrityError
                  else Inr (l\<lparr>libro_id := n\<rparr>)))
      else Inr l)"

text \<open>
  \<^verbatim>\<open>actualizar_libro\<close> returns the pair \<^verbatim>\<open>(exito, error)\<close>; the second component is
  \<^verbatim>\<open>None\<close> or a message. The message of the \<^verbatim>\<open>except\<close> branch is
  \<^verbatim>\<open>f"Error al actualizar: {e}"\<close>: the text \<^verbatim>\<open>str(e)\<close> of the exception is worded by
  the driver and the mapper, and is the parameter \<open>str_e\<close>.
\<close>

definition actualizar_libro ::
  "(db_error \<Rightarrow> string) \<Rightarrow> store \<Rightarrow> int \<Rightarrow> string \<Rightarrow> string option
     \<Rightarrow> store \<times> (bool \<times> string option)" where
  "actualizar_libro str_e s i campo nuevo_valor =
     (case obtener_libro_por_id s i of
        None \<Rightarrow> (s, (False, Some ''Libro no encontrado.''))
      | Some l \<Rightarrow>
          (case setattr_commit s l campo nuevo_valor of
             Inr l' \<Rightarrow>
               (s\<lparr>rows := map (\<lambda>r. if libro_id r = i then l' else r) (rows s)\<rparr>,
                (True, None))
           | Inl err \<Rightarrow> (s, (False, Some (''Error al actualizar: '' @ str_e err)))))"

text \<open>
  \<^verbatim>\<open>eliminar_libro\<close>: \<^verbatim>\<open>session.delete\<close> and \<^verbatim>\<open>commit\<close>. The table has no foreign key,
  so the deletion of a row that was found does not fail.
\<close>

definition eliminar_libro :: "store \<Rightarrow> int \<Rightarrow> store \<times> bool" where
  "eliminar_libro s i =
     (case obtener_libro_por_id s i of
        None \<Rightarrow> (s, False)
      | Some l \<Rightarrow> (s\<lparr>rows := filter (\<lambda>r. libro_id r \<noteq> i) (rows s)\<rparr>, True))"

text \<open>
  The valid tuples: a string in every \<^verbatim>\<open>NOT NULL\<close> column and no value longer than its
  column.
\<close>

definition valid_values ::
  "string option \<Rightarrow> string option \<Rightarrow> string option \<Rightarrow> string option \<Rightarrow> bool" where
  "valid_values t a g e =
     (first_error [col_check False 255 t, col_check False 255 a,
                   col_check True 100 g, col_check False 20 e] = None)"

text \<open>
  A store with one book, used to run the operations on, and a wording of the exceptions.
\<close>

fun texto_breve :: "db_error \<Rightarrow> string" where
  "texto_breve IntegrityError = ''(1048) Column cannot be null''"
| "texto_breve DataError = ''(1406) Data too long for column''"
| "texto_breve FlushError = ''Cannot update primary key''"

definition ejemplo :: store where
  "ejemplo =
     \<lparr>rows = [\<lparr>libro_id = 1, titulo = ''Cien anos de soledad'', autor = ''Garcia Marquez'',
               genero = Some ''Novela'', estado = estado_no_leido\<rparr>],
      next_id = 2\<rparr>"

subsection \<open>Listing and searching\<close>

text \<open>
  What the server's configuration and the driver decide, and the program does not:
  \<^item> \<open>clave\<close>, the key under which the collation of the text columns orders a string;
  \<^item> \<open>igual\<close>, whether the collation takes two characters for equal, as \<^verbatim>\<open>LIKE\<close>
    compares them (the server's default collations ignore case and accents);
  \<^item> \<open>str_error\<close>, the wording \<^verbatim>\<open>str(e)\<close> of an exception.
\<close>

record 'k entorno =
  clave :: "string \<Rightarrow> 'k"
  igual :: "char \<Rightarrow> char \<Rightarrow> bool"
  str_error :: "db_error \<Rightarrow> string"

text \<open>
  \<^verbatim>\<open>select(Libro).order_by(Libro.titulo)\<close>. The statement names no second key, so rows
  with equal titles come out in the order the engine scans them. \<^verbatim>\<open>to_dict\<close> copies the
  five attributes, so the dictionary is the record itself.
\<close>

definition obtener_todos_los_libros :: "('k::linorder) entorno \<Rightarrow> store \<Rightarrow> libro list" where
  "obtener_todos_los_libros env s = sort_key (\<lambda>l. clave env (titulo l)) (rows s)"

text \<open>\<^verbatim>\<open>lower\<close>, of SQL and of Python, on the characters below 256.\<close>

definition char_lower :: "char \<Rightarrow> char" where
  "char_lower c =
     (let n = (of_char c :: nat)
      in if (65 \<le> n \<and> n \<le> 90) \<or> (192 \<le> n \<and> n \<le> 222 \<and> n \<noteq> 215)
         then char_of (n + 32) else c)"

definition lower :: "string \<Rightarrow> string" where
  "lower s = map char_lower s"

text \<open>
  The server's \<^verbatim>\<open>LIKE\<close>: in the pattern \<^verbatim>\<open>%\<close> stands for any run of characters,
  \<^verbatim>\<open>_\<close> for any one character, and a backslash takes the next character literally. A
  literal character of the pattern matches the characters the collation takes for equal
  to it, which is the parameter \<open>eq\<close>.
\<close>

fun like_match :: "(char \<Rightarrow> char \<Rightarrow> bool) \<Rightarrow> string \<Rightarrow> string \<Rightarrow> bool" where
  "like_match eq [] s = (s = [])"
| "like_match eq (p # ps) s =
     (if p = CHR ''%'' then
        like_match eq ps s \<or> (case s of [] \<Rightarrow> False | c # cs \<Rightarrow> like_match eq (p # ps) cs)
      else if p = CHR ''_'' then
        (case s of [] \<Rightarrow> False | c # cs \<Rightarrow> like_match eq ps cs)
      else if p = CHR 0x5C then
        (case ps of
           [] \<Rightarrow> (case s of [] \<Rightarrow> False | c # cs \<Rightarrow> eq p c \<and> cs = [])
         | q # qs \<Rightarrow> (case s of [] \<Rightarrow> False | c # cs \<Rightarrow> eq q c \<and> like_match eq qs cs))
      else (case s of [] \<Rightarrow> False | c # cs \<Rightarrow> eq p c \<and> like_match eq ps cs))"

text \<open>
  \<^verbatim>\<open>column.ilike(pattern)\<close> is sent as \<^verbatim>\<open>lower(column) LIKE lower(pattern)\<close>. On a
  \<^verbatim>\<open>NULL\<close> column the comparison is \<^verbatim>\<open>NULL\<close>, which selects the row only if another
  disjunct is true.
\<close>

definition ilike :: "(char \<Rightarrow> char \<Rightarrow> bool) \<Rightarrow> string \<Rightarrow> string \<Rightarrow> bool" where
  "ilike eq x pat = like_match eq (lower pat) (lower x)"

definition buscar_libros :: "('k::linorder) entorno \<Rightarrow> store \<Rightarrow> string \<Rightarrow> libro list" where
  "buscar_libros env s termino =
     (let termino_busqueda = ''%'' @ termino @ ''%''
      in sort_key (\<lambda>l. clave env (titulo l))
           (filter (\<lambda>l. ilike (igual env) (titulo l) termino_busqueda
                       \<or> ilike (igual env) (autor l) termino_busqueda
                       \<or> (case genero l of
                             None \<Rightarrow> False
                           | Some g \<Rightarrow> ilike (igual env) g termino_busqueda))
              (rows s)))"

definition like_special :: "char set" where
  "like_special = {CHR ''%'', CHR ''_'', CHR 0x5C}"

text \<open>
  What the specification asks of a match: the term occurs in the field as a contiguous
  run of characters. \<open>ocurre eq t x\<close> says so, with the characters of the term and of
  the field compared by \<open>eq\<close>: some run of \<open>x\<close> has the length of \<open>t\<close> and its characters
  are related to those of \<open>t\<close>, one by one.
\<close>

fun empieza :: "('a \<Rightarrow> 'a \<Rightarrow> bool) \<Rightarrow> 'a list \<Rightarrow> 'a list \<Rightarrow> bool" where
  "empieza eq [] x = True"
| "empieza eq (c # cs) [] = False"
| "empieza eq (c # cs) (d # ds) = (eq c d \<and> empieza eq cs ds)"

fun ocurre :: "('a \<Rightarrow> 'a \<Rightarrow> bool) \<Rightarrow> 'a list \<Rightarrow> 'a list \<Rightarrow> bool" where
  "ocurre eq t [] = (t = [])"
| "ocurre eq t (d # ds) = (empieza eq t (d # ds) \<or> ocurre eq t ds)"

text \<open>
  Two characters are the same letter, case ignored, when they are equal or one is the
  capital of the other; the capitals are \<^verbatim>\<open>A\<close> to \<^verbatim>\<open>Z\<close> and the accented capitals
  192 to 222 (215, the multiplication sign, is not a letter), each 32 below its small
  letter.
\<close>

definition es_mayuscula :: "char \<Rightarrow> bool" where
  "es_mayuscula c =
     (let n = (of_char c :: nat)
      in (65 \<le> n \<and> n \<le> 90) \<or> (192 \<le> n \<and> n \<le> 222 \<and> n \<noteq> 215))"

definition misma_letra :: "char \<Rightarrow> char \<Rightarrow> bool" where
  "misma_letra c d =
     (c = d
      \<or> (es_mayuscula c \<and> (of_char d :: nat) = of_char c + 32)
      \<or> (es_mayuscula d \<and> (of_char c :: nat) = of_char d + 32))"

text \<open>The term is a case-insensitive substring of a field of the book.\<close>

definition ci_substring :: "string \<Rightarrow> string \<Rightarrow> bool" where
  "ci_substring t x = ocurre misma_letra t x"

definition matches_term :: "string \<Rightarrow> libro \<Rightarrow> bool" where
  "matches_term t l =
     (ci_substring t (titulo l) \<or> ci_substring t (autor l)
      \<or> (case genero l of None \<Rightarrow> False | Some g \<Rightarrow> ci_substring t g))"

text \<open>
  The term occurs in a field of the book, with the characters compared as the statement
  sent to the server compares them: lowered, then by the collation.
\<close>

definition igual_lower :: "(char \<Rightarrow> char \<Rightarrow> bool) \<Rightarrow> char \<Rightarrow> char \<Rightarrow> bool" where
  "igual_lower eq p c = eq (char_lower p) (char_lower c)"

definition coincide :: "(char \<Rightarrow> char \<Rightarrow> bool) \<Rightarrow> string \<Rightarrow> libro \<Rightarrow> bool" where
  "coincide eq t l =
     (ocurre (igual_lower eq) t (titulo l) \<or> ocurre (igual_lower eq) t (autor l)
      \<or> (case genero l of None \<Rightarrow> False | Some g \<Rightarrow> ocurre (igual_lower eq) t g))"

text \<open>
  Two settings to run the operations with. The first compares by code point. The second
  ignores case and the accents of the letters below 256, in the manner of the server's
  default collation: a letter is compared as the code of its small letter without the
  accent.
\<close>

definition plegar_codigo :: "nat \<Rightarrow> nat" where
  "plegar_codigo n =
     (if 65 \<le> n \<and> n \<le> 90 then n + 32
      else if (192 \<le> n \<and> n \<le> 197) \<or> (224 \<le> n \<and> n \<le> 229) then 97
      else if n = 199 \<or> n = 231 then 99
      else if (200 \<le> n \<and> n \<le> 203) \<or> (232 \<le> n \<and> n \<le> 235) then 101
      else if (204 \<le> n \<and> n \<le> 207) \<or> (236 \<le> n \<and> n \<le> 239) then 105
      else if n = 209 \<or> n = 241 then 110
      else if (210 \<le> n \<and> n \<le> 214) \<or> (242 \<le> n \<and> n \<le> 246) then 111
      else if (217 \<le> n \<and> n \<le> 220) \<or> (249 \<le> n \<and> n \<le> 252) then 117
      else if n = 221 \<or> n = 253 \<or> n = 255 then 121
      else n)"

definition plegar :: "char \<Rightarrow> nat" where
  "plegar c = plegar_codigo (of_char c)"

definition entorno_binario :: "(nat list) entorno" where
  "entorno_binario =
     \<lparr>clave = map of_char, igual = (\<lambda>c d. c = d), str_error = texto_breve\<rparr>"

definition entorno_ci :: "(nat list) entorno" where
  "entorno_ci =
     \<lparr>clave = map plegar, igual = (\<lambda>c d. plegar c = plegar d),
      str_error = texto_breve\<rparr>"

subsection \<open>The console: table rendering\<close>

datatype excepcion = EOFError | TypeError | DBError db_error

text \<open>\<^verbatim>\<open>str\<close> of an integer, as the f-strings print an id.\<close>

fun str_nat :: "nat \<Rightarrow> string" where
  "str_nat n = (if n < 10 then [char_of (48 + n)] else str_nat (n div 10) @ [char_of (48 + n mod 10)])"

declare str_nat.simps [simp del]

definition str_int :: "int \<Rightarrow> string" where
  "str_int i = (if i < 0 then CHR ''-'' # str_nat (nat (- i)) else str_nat (nat i))"

text \<open>The format \<^verbatim>\<open>{x:<n}\<close>: padded with spaces on the right up to \<open>n\<close>, never cut.\<close>

definition ljust :: "nat \<Rightarrow> string \<Rightarrow> string" where
  "ljust n x = x @ replicate (n - length x) CHR '' ''"

text \<open>\<^verbatim>\<open>(x[:COL-3] + '...') if len(x) > COL else x\<close>\<close>

definition truncar :: "nat \<Rightarrow> string \<Rightarrow> string" where
  "truncar col x = (if col < length x then take (col - 3) x @ ''...'' else x)"

definition COL_ID :: nat where "COL_ID = 5"
definition COL_TITULO :: nat where "COL_TITULO = 40"
definition COL_AUTOR :: nat where "COL_AUTOR = 25"
definition COL_GENERO :: nat where "COL_GENERO = 15"
definition COL_ESTADO :: nat where "COL_ESTADO = 12"

definition separador :: "char \<Rightarrow> string" where
  "separador c =
     ''+'' @ replicate COL_ID c @ ''+'' @ replicate COL_TITULO c @ ''+'' @ replicate COL_AUTOR c
     @ ''+'' @ replicate COL_GENERO c @ ''+'' @ replicate COL_ESTADO c @ ''+''"

text \<open>A line of the table from its five cells, as the f-string lays them out.\<close>

definition linea :: "string list \<Rightarrow> string" where
  "linea cs = ''| '' @ concat (map (\<lambda>c. c @ '' | '') (butlast cs)) @ last cs @ '' |''"

definition encabezado :: string where
  "encabezado =
     linea [ljust (COL_ID - 1) ''ID'', ljust (COL_TITULO - 1) (''T'' @ [CHR 0xCD] @ ''TULO''),
            ljust (COL_AUTOR - 1) ''AUTOR'', ljust (COL_GENERO - 1) (''G'' @ [CHR 0xC9] @ ''NERO''),
            ljust (COL_ESTADO - 1) ''ESTADO'']"

text \<open>
  The cells of one book. Title, author and genre go through the truncation; the id and
  the status are only padded. \<^verbatim>\<open>len(libro['genero'])\<close> raises \<^verbatim>\<open>TypeError\<close> when the
  genre is \<^verbatim>\<open>None\<close>.
\<close>

definition celdas :: "libro \<Rightarrow> excepcion + string list" where
  "celdas l =
     (let t = truncar COL_TITULO (titulo l);
          a = truncar COL_AUTOR (autor l)
      in case genero l of
           None \<Rightarrow> Inl TypeError
         | Some g0 \<Rightarrow>
             let g = truncar COL_GENERO g0
             in Inr [ljust (COL_ID - 1) (str_int (libro_id l)), ljust (COL_TITULO - 1) t,
                     ljust (COL_AUTOR - 1) a, ljust (COL_GENERO - 1) g,
                     ljust (COL_ESTADO - 1) (estado l)])"

text \<open>
  The \<^verbatim>\<open>for\<close> loop: the lines printed, and the exception that ended the loop if one did.
\<close>

fun filas :: "libro list \<Rightarrow> string list \<times> excepcion option" where
  "filas [] = ([], None)"
| "filas (l # ls) =
     (case celdas l of
        Inl e \<Rightarrow> ([], Some e)
      | Inr cs \<Rightarrow> (case filas ls of (out, r) \<Rightarrow> (linea cs # out, r)))"

definition msg_sin_libros :: string where
  "msg_sin_libros = [CHR 0x0A] @ '' No hay libros registrados o no se encontraron resultados.''"

definition mostrar_libros_tabla :: "libro list \<Rightarrow> string list \<times> excepcion option" where
  "mostrar_libros_tabla libros =
     (if libros = [] then ([msg_sin_libros], None)
      else case filas libros of
             (out, None) \<Rightarrow>
               ([separador CHR ''-'', encabezado, separador CHR ''=''] @ out @ [separador CHR ''-''],
                None)
           | (out, Some e) \<Rightarrow>
               ([separador CHR ''-'', encabezado, separador CHR ''=''] @ out, Some e))"

subsection \<open>The console: input and output\<close>

text \<open>
  The console is the lines still to be read from standard input and what has been written
  so far. \<^verbatim>\<open>input\<close> writes its prompt and takes the next line; with no line left it
  raises \<^verbatim>\<open>EOFError\<close>. The program's state is the table and the console.
\<close>

datatype evento = Print string | Prompt string | Clear

record mundo =
  db :: store
  entrada :: "string list"
  salida :: "evento list"

definition py_print :: "string \<Rightarrow> mundo \<Rightarrow> mundo" where
  "py_print x w = w\<lparr>salida := salida w @ [Print x]\<rparr>"

definition py_input :: "string \<Rightarrow> mundo \<Rightarrow> (excepcion + string) \<times> mundo" where
  "py_input prompt w =
     (case entrada w of
        [] \<Rightarrow> (Inl EOFError, w\<lparr>salida := salida w @ [Prompt prompt]\<rparr>)
      | l # ls \<Rightarrow> (Inr l, w\<lparr>entrada := ls, salida := salida w @ [Prompt prompt]\<rparr>))"

definition limpiar_pantalla :: "mundo \<Rightarrow> mundo" where
  "limpiar_pantalla w = w\<lparr>salida := salida w @ [Clear]\<rparr>"

text \<open>Sequencing: an exception ends the sequence.\<close>

definition bind_io ::
  "(mundo \<Rightarrow> (excepcion + 'a) \<times> mundo) \<Rightarrow> ('a \<Rightarrow> mundo \<Rightarrow> (excepcion + 'b) \<times> mundo)
     \<Rightarrow> mundo \<Rightarrow> (excepcion + 'b) \<times> mundo" where
  "bind_io m f w = (case m w of (Inl e, w') \<Rightarrow> (Inl e, w') | (Inr x, w') \<Rightarrow> f x w')"

text \<open>\<^verbatim>\<open>str.strip()\<close>: the characters \<^verbatim>\<open>str.isspace\<close> accepts, below 256.\<close>

definition is_space :: "char \<Rightarrow> bool" where
  "is_space c =
     (let n = (of_char c :: nat)
      in (9 \<le> n \<and> n \<le> 13) \<or> (28 \<le> n \<and> n \<le> 32) \<or> n = 133 \<or> n = 160)"

definition strip :: "string \<Rightarrow> string" where
  "strip x = rev (dropWhile is_space (rev (dropWhile is_space x)))"

text \<open>
  \<^verbatim>\<open>int(x)\<close>: surrounding space is ignored, then an optional sign and decimal digits,
  where single underscores may stand between digits; \<open>None\<close> is \<^verbatim>\<open>ValueError\<close>.
\<close>

fun py_digits :: "nat \<Rightarrow> bool \<Rightarrow> string \<Rightarrow> nat option" where
  "py_digits acc prev [] = (if prev then Some acc else None)"
| "py_digits acc prev (c # cs) =
     (if c = CHR ''_'' then (if prev then py_digits acc False cs else None)
      else case digit_val c of
             None \<Rightarrow> None
           | Some d \<Rightarrow> py_digits (10 * acc + d) True cs)"

definition py_int :: "string \<Rightarrow> int option" where
  "py_int x =
     (case strip x of
        [] \<Rightarrow> None
      | c # cs \<Rightarrow>
          if c = CHR ''-'' then map_option (\<lambda>n. - int n) (py_digits 0 False cs)
          else if c = CHR ''+'' then map_option int (py_digits 0 False cs)
          else map_option int (py_digits 0 False (c # cs)))"

definition mostrar_menu :: "mundo \<Rightarrow> mundo" where
  "mostrar_menu w =
     w\<lparr>salida := salida w @
        [Print ([CHR 0x0A] @ replicate 50 CHR ''=''),
         Print ('' Administrador de Biblioteca (MariaDB + SQLAlchemy)''),
         Print (replicate 50 CHR ''=''),
         Print (''1.  Agregar nuevo libro''),
         Print (''2.  Ver listado de libros''),
         Print (''3.  Buscar libros''),
         Print (''4.  Actualizar informaci'' @ [CHR 0xF3] @ ''n de un libro''),
         Print (''5.  Eliminar libro existente''),
         Print (''6.  Salir''),
         Print (replicate 50 CHR ''='')]\<rparr>"

text \<open>\<^verbatim>\<open>obtener_entrada\<close>: asks until the stripped line is not empty.\<close>

function obtener_entrada :: "string \<Rightarrow> mundo \<Rightarrow> (excepcion + string) \<times> mundo" where
  "obtener_entrada prompt w =
     (case py_input prompt w of
        (Inl e, w') \<Rightarrow> (Inl e, w')
      | (Inr l, w') \<Rightarrow>
          if strip l \<noteq> [] then (Inr (strip l), w')
          else obtener_entrada prompt
                 (py_print ('' La entrada no puede estar vac'' @ [CHR 0xED] @ ''a. Intente de nuevo.'') w'))"
  by pat_completeness auto
termination
  by (relation "measure (\<lambda>(p, w). length (entrada w))")
    (auto simp: py_input_def py_print_def split: list.splits)

declare obtener_entrada.simps [simp del]

lemma obtener_entrada_consumes:
  "obtener_entrada prompt w = (Inr x, w') \<Longrightarrow> length (entrada w') < length (entrada w)"
proof (induction prompt w rule: obtener_entrada.induct)
  case (1 prompt w)
  show ?case
  proof (cases "entrada w")
    case Nil
    then show ?thesis
      using "1.prems" by (simp add: obtener_entrada.simps [of prompt w] py_input_def)
  next
    case (Cons l ls)
    let ?w1 = "w\<lparr>entrada := ls, salida := salida w @ [Prompt prompt]\<rparr>"
    have inp: "py_input prompt w = (Inr l, ?w1)"
      using Cons by (simp add: py_input_def)
    show ?thesis
    proof (cases "strip l = []")
      case True
      let ?w2 = "py_print ('' La entrada no puede estar vac'' @ [CHR 0xED] @ ''a. Intente de nuevo.'') ?w1"
      have "obtener_entrada prompt ?w2 = (Inr x, w')"
        using "1.prems" inp True by (simp add: obtener_entrada.simps [of prompt w])
      then have "length (entrada w') < length (entrada ?w2)"
        using "1.IH" [OF inp [symmetric] refl] True by simp
      then show ?thesis
        using Cons by (simp add: py_print_def)
    next
      case False
      then show ?thesis
        using "1.prems" inp Cons by (auto simp: obtener_entrada.simps [of prompt w])
    qed
  qed
qed

text \<open>
  \<^verbatim>\<open>obtener_id_valido\<close>: asks until the entry is an integer that is the id of a row.
\<close>

function obtener_id_valido :: "string \<Rightarrow> mundo \<Rightarrow> (excepcion + int) \<times> mundo" where
  "obtener_id_valido mensaje w =
     (case obtener_entrada mensaje w of
        (Inl e, w') \<Rightarrow> (Inl e, w')
      | (Inr x, w') \<Rightarrow>
          (case py_int x of
             None \<Rightarrow>
               obtener_id_valido mensaje
                 (py_print ('' Por favor, ingrese un n'' @ [CHR 0xFA] @ ''mero entero v'' @ [CHR 0xE1] @ ''lido para el ID.'') w')
           | Some i \<Rightarrow>
               (case obtener_libro_por_id (db w') i of
                  Some l \<Rightarrow> (Inr i, w')
                | None \<Rightarrow>
                    obtener_id_valido mensaje
                      (py_print ('' No se encontr'' @ [CHR 0xF3] @ '' ning'' @ [CHR 0xFA] @ ''n libro con el ID '' @ str_int i @ ''.'')
                         w'))))"
  by pat_completeness auto
termination
  by (relation "measure (\<lambda>(p, w). length (entrada w))")
    (auto simp: py_print_def dest: obtener_entrada_consumes [OF sym])

declare obtener_id_valido.simps [simp del]

text \<open>
  The \<^verbatim>\<open>while True\<close> loop that asks for the reading status: \<^verbatim>\<open>'1'\<close> and \<^verbatim>\<open>'2'\<close>
  select the two values of \<^verbatim>\<open>ESTADOS_LECTURA\<close>. The two handlers that have it differ in
  the prompt and the message.
\<close>

function pedir_estado :: "string \<Rightarrow> string \<Rightarrow> mundo \<Rightarrow> (excepcion + string) \<times> mundo" where
  "pedir_estado prompt aviso w =
     (case obtener_entrada prompt w of
        (Inl e, w') \<Rightarrow> (Inl e, w')
      | (Inr x, w') \<Rightarrow>
          if x = ''1'' then (Inr (ESTADOS_LECTURA ! 0), w')
          else if x = ''2'' then (Inr (ESTADOS_LECTURA ! 1), w')
          else pedir_estado prompt aviso (py_print aviso w'))"
  by pat_completeness auto
termination
  by (relation "measure (\<lambda>(p, a, w). length (entrada w))")
    (auto simp: py_print_def dest: obtener_entrada_consumes [OF sym])

declare pedir_estado.simps [simp del]

subsection \<open>The console: the handlers of the menu\<close>

text \<open>Printing the table: the lines go to the console, the exception to the caller.\<close>

definition emitir_tabla :: "libro list \<Rightarrow> mundo \<Rightarrow> (excepcion + unit) \<times> mundo" where
  "emitir_tabla libros w =
     (case mostrar_libros_tabla libros of
        (out, r) \<Rightarrow>
          ((case r of None \<Rightarrow> Inr () | Some e \<Rightarrow> Inl e),
           w\<lparr>salida := salida w @ map Print out\<rparr>))"

definition prompt_estado_agregar :: string where
  "prompt_estado_agregar = ''Estado de lectura (1: Le'' @ [CHR 0xED] @ ''do, 2: No le'' @ [CHR 0xED] @ ''do): ''"

definition aviso_estado_agregar :: string where
  "aviso_estado_agregar = '' Opci'' @ [CHR 0xF3] @ ''n de estado no v'' @ [CHR 0xE1] @ ''lida. Use '' @ [CHR 0x27] @ ''1'' @ [CHR 0x27] @ '' o '' @ [CHR 0x27] @ ''2'' @ [CHR 0x27] @ ''.''"

definition manejar_agregar_libro :: "mundo \<Rightarrow> (excepcion + unit) \<times> mundo" where
  "manejar_agregar_libro w =
     bind_io (obtener_entrada (''T'' @ [CHR 0xED] @ ''tulo: '')) (\<lambda>titulo.
     bind_io (obtener_entrada (''Autor: '')) (\<lambda>autor.
     bind_io (obtener_entrada (''G'' @ [CHR 0xE9] @ ''nero: '')) (\<lambda>genero.
     bind_io (pedir_estado prompt_estado_agregar aviso_estado_agregar) (\<lambda>estado w'.
       (case insertar_libro (db w') (Some titulo) (Some autor) (Some genero) (Some estado) of
          (s', Inl err) \<Rightarrow> (Inl (DBError err), w'\<lparr>db := s'\<rparr>)
        | (s', Inr ok) \<Rightarrow>
            (Inr (),
             py_print
               (if ok then [CHR 0x0A] @ '' Libro '' @ [CHR 0x27] @ titulo @ [CHR 0x27] @ '' de '' @ autor @ '' agregado exitosamente.''
                else [CHR 0x0A] @ '' Error al agregar el libro (posible duplicado o error de integridad).'')
               (w'\<lparr>db := s'\<rparr>)))))))
       (py_print ([CHR 0x0A] @ ''---  AGREGAR NUEVO LIBRO ---'') (limpiar_pantalla w))"

definition manejar_listado_libros ::
  "('k::linorder) entorno \<Rightarrow> mundo \<Rightarrow> (excepcion + unit) \<times> mundo" where
  "manejar_listado_libros env w =
     emitir_tabla (obtener_todos_los_libros env (db w))
       (py_print ([CHR 0x0A] @ ''---  LISTADO COMPLETO DE LIBROS ---'') (limpiar_pantalla w))"

definition manejar_buscar_libros ::
  "('k::linorder) entorno \<Rightarrow> mundo \<Rightarrow> (excepcion + unit) \<times> mundo" where
  "manejar_buscar_libros env w =
     bind_io (obtener_entrada (''Ingrese el t'' @ [CHR 0xE9] @ ''rmino de b'' @ [CHR 0xFA] @ ''squeda (t'' @ [CHR 0xED] @ ''tulo, autor o g'' @ [CHR 0xE9] @ ''nero): ''))
       (\<lambda>termino w'.
          emitir_tabla (buscar_libros env (db w') termino)
            (py_print ([CHR 0x0A] @ ''Resultados de la b'' @ [CHR 0xFA] @ ''squeda para: '' @ [CHR 0x27] @ termino @ [CHR 0x27]) w'))
       (py_print ([CHR 0x0A] @ ''---  BUSCAR LIBROS ---'') (limpiar_pantalla w))"

text \<open>
  The end of \<^verbatim>\<open>manejar_actualizar_libro\<close>: \<^verbatim>\<open>if exito: ... elif error: ... else: ...\<close>.
  \<^verbatim>\<open>None\<close> and the empty string are the values of \<^verbatim>\<open>error\<close> that count as false.
\<close>

definition msg_actualizado :: "int \<Rightarrow> string" where
  "msg_actualizado i = [CHR 0x0A] @ '' Libro ID '' @ str_int i @ '' actualizado exitosamente.''"

definition msg_no_se_pudo :: "string \<Rightarrow> string" where
  "msg_no_se_pudo m = [CHR 0x0A] @ '' No se pudo actualizar el libro: '' @ m"

definition msg_ninguna_actualizacion :: string where
  "msg_ninguna_actualizacion = [CHR 0x0A] @ '' No se realiz'' @ [CHR 0xF3] @ '' ninguna actualizaci'' @ [CHR 0xF3] @ ''n.''"

definition informar_actualizacion :: "int \<Rightarrow> bool \<times> string option \<Rightarrow> string" where
  "informar_actualizacion i r =
     (case r of
        (exito, error) \<Rightarrow>
          if exito then msg_actualizado i
          else (case error of
                  Some m \<Rightarrow> if m \<noteq> [] then msg_no_se_pudo m else msg_ninguna_actualizacion
                | None \<Rightarrow> msg_ninguna_actualizacion))"

text \<open>\<^verbatim>\<open>campos = {'1': 'titulo', '2': 'autor', '3': 'genero', '4': 'estado'}\<close>\<close>

definition campos :: "string \<Rightarrow> string option" where
  "campos = map_of [(''1'', ''titulo''), (''2'', ''autor''), (''3'', ''genero''), (''4'', ''estado'')]"

text \<open>\<^verbatim>\<open>str.capitalize()\<close>, on characters below 256 whose capital is below 256.\<close>

definition char_upper :: "char \<Rightarrow> char" where
  "char_upper c =
     (let n = (of_char c :: nat)
      in if (97 \<le> n \<and> n \<le> 122) \<or> (224 \<le> n \<and> n \<le> 254 \<and> n \<noteq> 247)
         then char_of (n - 32) else c)"

definition capitalize :: "string \<Rightarrow> string" where
  "capitalize x = (case x of [] \<Rightarrow> [] | c # cs \<Rightarrow> char_upper c # lower cs)"

definition prompt_estado_actualizar :: string where
  "prompt_estado_actualizar = ''Nuevo estado (1: Le'' @ [CHR 0xED] @ ''do, 2: No le'' @ [CHR 0xED] @ ''do): ''"

definition aviso_estado_actualizar :: string where
  "aviso_estado_actualizar = '' Opci'' @ [CHR 0xF3] @ ''n no v'' @ [CHR 0xE1] @ ''lida. Use '' @ [CHR 0x27] @ ''1'' @ [CHR 0x27] @ '' o '' @ [CHR 0x27] @ ''2'' @ [CHR 0x27] @ ''.''"

definition manejar_actualizar_libro ::
  "('k::linorder) entorno \<Rightarrow> mundo \<Rightarrow> (excepcion + unit) \<times> mundo" where
  "manejar_actualizar_libro env w =
     bind_io (emitir_tabla (obtener_todos_los_libros env (db w))) (\<lambda>u w2.
       if obtener_todos_los_libros env (db w) = [] then (Inr (), w2)
       else
         bind_io (obtener_id_valido ([CHR 0x0A] @ ''Ingrese el ID del libro a actualizar: '')) (\<lambda>i w3.
           bind_io (obtener_entrada (''Seleccione una opci'' @ [CHR 0xF3] @ ''n (1-4): '')) (\<lambda>opcion w4.
             (case campos opcion of
                None \<Rightarrow> (Inr (), py_print ('' Opci'' @ [CHR 0xF3] @ ''n no v'' @ [CHR 0xE1] @ ''lida.'') w4)
              | Some campo \<Rightarrow>
                  bind_io
                    (if campo = ''estado''
                     then pedir_estado prompt_estado_actualizar aviso_estado_actualizar
                     else obtener_entrada
                            (''Ingrese el nuevo valor para '' @ [CHR 0x27] @ capitalize campo @ [CHR 0x27] @ '': ''))
                    (\<lambda>nuevo_valor w5.
                       (case actualizar_libro (str_error env) (db w5) i campo (Some nuevo_valor) of
                          (s', r) \<Rightarrow>
                            (Inr (), py_print (informar_actualizacion i r) (w5\<lparr>db := s'\<rparr>))))
                    w4))
             (py_print (''4. Estado de lectura'')
               (py_print (''3. G'' @ [CHR 0xE9] @ ''nero'')
                 (py_print (''2. Autor'')
                   (py_print (''1. T'' @ [CHR 0xED] @ ''tulo'')
                     (py_print ([CHR 0x0A] @ [CHR 0xBF] @ ''Qu'' @ [CHR 0xE9] @ '' campo desea actualizar?'') w3))))))
           w2)
       (py_print ([CHR 0x0A] @ ''---  ACTUALIZAR LIBRO ---'') (limpiar_pantalla w))"

definition manejar_eliminar_libro ::
  "('k::linorder) entorno \<Rightarrow> mundo \<Rightarrow> (excepcion + unit) \<times> mundo" where
  "manejar_eliminar_libro env w =
     bind_io (emitir_tabla (obtener_todos_los_libros env (db w))) (\<lambda>u w2.
       if obtener_todos_los_libros env (db w) = [] then (Inr (), w2)
       else
         bind_io (obtener_id_valido ([CHR 0x0A] @ ''Ingrese el ID del libro a eliminar: '')) (\<lambda>i.
           bind_io
             (py_input ('' '' @ [CHR 0xBF] @ ''Est'' @ [CHR 0xE1] @ '' seguro que desea eliminar el libro ID '' @ str_int i
                        @ ''? (s/N): ''))
             (\<lambda>confirmacion w4.
                if lower confirmacion = ''s'' then
                  (case eliminar_libro (db w4) i of
                     (s', ok) \<Rightarrow>
                       (Inr (),
                        py_print
                          (if ok then [CHR 0x0A] @ '' Libro ID '' @ str_int i @ '' eliminado exitosamente.''
                           else [CHR 0x0A] @ '' Error al eliminar el libro o el ID no existe.'')
                          (w4\<lparr>db := s'\<rparr>)))
                else (Inr (), py_print ([CHR 0x0A] @ ''Operaci'' @ [CHR 0xF3] @ ''n de eliminaci'' @ [CHR 0xF3] @ ''n cancelada.'') w4)))
           w2)
       (py_print ([CHR 0x0A] @ ''---  ELIMINAR LIBRO ---'') (limpiar_pantalla w))"

subsection \<open>The console: the main loop\<close>

text \<open>
  No operation puts lines back on standard input: what is left to read after an
  operation is a suffix of what was left before. The main loop terminates on every
  finite input for this reason.
\<close>

definition conserva :: "(mundo \<Rightarrow> 'r \<times> mundo) \<Rightarrow> bool" where
  "conserva m = (\<forall>w. suffix (entrada (snd (m w))) (entrada w))"

lemma conservaI: "(\<And>w. suffix (entrada (snd (m w))) (entrada w)) \<Longrightarrow> conserva m"
  by (simp add: conserva_def)

lemma conserva_snd: "conserva m \<Longrightarrow> suffix (entrada (snd (m w))) (entrada w)"
  by (simp add: conserva_def)

lemma conservaD: "conserva m \<Longrightarrow> m w = (r, w') \<Longrightarrow> suffix (entrada w') (entrada w)"
  by (metis conserva_def snd_conv)

lemma conserva_bind:
  assumes "conserva m" and "\<And>x. conserva (f x)"
  shows "conserva (bind_io m f)"
proof (rule conservaI)
  fix w
  obtain r w1 where m: "m w = (r, w1)" by (cases "m w")
  have s1: "suffix (entrada w1) (entrada w)" using assms(1) m by (rule conservaD)
  show "suffix (entrada (snd (bind_io m f w))) (entrada w)"
  proof (cases r)
    case (Inl e)
    then show ?thesis using m s1 by (simp add: bind_io_def)
  next
    case (Inr x)
    obtain r2 w2 where f: "f x w1 = (r2, w2)" by (cases "f x w1")
    have "suffix (entrada w2) (entrada w1)" using assms(2) f by (rule conservaD)
    then show ?thesis using Inr m f s1 by (auto simp: bind_io_def intro: suffix_order.trans)
  qed
qed

lemma bind_io_suffix:
  assumes "conserva m" and "\<And>x. conserva (f x)" and "suffix (entrada w0) xs"
  shows "suffix (entrada (snd (bind_io m f w0))) xs"
proof -
  have "suffix (entrada (snd (bind_io m f w0))) (entrada w0)"
    using conserva_bind [OF assms(1,2)] by (simp add: conserva_def)
  then show ?thesis
    using assms(3) by (rule suffix_order.trans)
qed

lemma entrada_py_print [simp]: "entrada (py_print x w) = entrada w"
  by (simp add: py_print_def)

lemma entrada_limpiar_pantalla [simp]: "entrada (limpiar_pantalla w) = entrada w"
  by (simp add: limpiar_pantalla_def)

lemma entrada_mostrar_menu [simp]: "entrada (mostrar_menu w) = entrada w"
  by (simp add: mostrar_menu_def)

lemma conserva_py_input: "conserva (py_input prompt)"
  by (rule conservaI) (auto simp: py_input_def suffix_def split: list.splits)

lemma conserva_emitir_tabla: "conserva (emitir_tabla libros)"
  by (rule conservaI) (simp add: emitir_tabla_def split: prod.splits)

lemma obtener_entrada_suffix:
  "suffix (entrada (snd (obtener_entrada prompt w))) (entrada w)"
proof (induction prompt w rule: obtener_entrada.induct)
  case (1 prompt w)
  show ?case
  proof (cases "entrada w")
    case Nil
    then show ?thesis
      by (simp add: obtener_entrada.simps [of prompt w] py_input_def)
  next
    case (Cons l ls)
    let ?w1 = "w\<lparr>entrada := ls, salida := salida w @ [Prompt prompt]\<rparr>"
    have inp: "py_input prompt w = (Inr l, ?w1)"
      using Cons by (simp add: py_input_def)
    show ?thesis
    proof (cases "strip l = []")
      case True
      have "suffix (entrada (snd (obtener_entrada prompt w))) ls"
        using "1.IH" [OF inp [symmetric] refl] True inp
        by (simp add: obtener_entrada.simps [of prompt w])
      then show ?thesis
        using Cons by (simp add: suffix_Cons)
    next
      case False
      then show ?thesis
        using inp Cons by (simp add: obtener_entrada.simps [of prompt w] suffix_Cons)
    qed
  qed
qed

lemma conserva_obtener_entrada: "conserva (obtener_entrada prompt)"
  by (rule conservaI) (rule obtener_entrada_suffix)

lemma obtener_id_valido_suffix:
  "suffix (entrada (snd (obtener_id_valido mensaje w))) (entrada w)"
proof (induction mensaje w rule: obtener_id_valido.induct)
  case (1 mensaje w)
  obtain r w1 where oe: "obtener_entrada mensaje w = (r, w1)"
    by (cases "obtener_entrada mensaje w")
  have s1: "suffix (entrada w1) (entrada w)"
    using obtener_entrada_suffix [of mensaje w] oe by simp
  show ?case
  proof (cases r)
    case (Inl e)
    then show ?thesis using oe s1 by (simp add: obtener_id_valido.simps [of mensaje w])
  next
    case (Inr x)
    show ?thesis
    proof (cases "py_int x")
      case None
      have "suffix (entrada (snd (obtener_id_valido mensaje w))) (entrada w1)"
        using "1.IH"(1) [OF oe [symmetric] Inr None] oe Inr None
        by (simp add: obtener_id_valido.simps [of mensaje w])
      then show ?thesis
        using s1 by (rule suffix_order.trans)
    next
      case (Some i)
      show ?thesis
      proof (cases "obtener_libro_por_id (db w1) i")
        case None
        have "suffix (entrada (snd (obtener_id_valido mensaje w))) (entrada w1)"
          using "1.IH"(2) [OF oe [symmetric] Inr Some None] oe Inr Some None
          by (simp add: obtener_id_valido.simps [of mensaje w])
        then show ?thesis
          using s1 by (rule suffix_order.trans)
      next
        case (Some l)
        then show ?thesis
          using oe Inr \<open>py_int x = Some i\<close> s1
          by (simp add: obtener_id_valido.simps [of mensaje w])
      qed
    qed
  qed
qed

lemma conserva_obtener_id_valido: "conserva (obtener_id_valido mensaje)"
  by (rule conservaI) (rule obtener_id_valido_suffix)

lemma pedir_estado_suffix:
  "suffix (entrada (snd (pedir_estado prompt aviso w))) (entrada w)"
proof (induction prompt aviso w rule: pedir_estado.induct)
  case (1 prompt aviso w)
  obtain r w1 where oe: "obtener_entrada prompt w = (r, w1)"
    by (cases "obtener_entrada prompt w")
  have s1: "suffix (entrada w1) (entrada w)"
    using obtener_entrada_suffix [of prompt w] oe by simp
  show ?case
  proof (cases r)
    case (Inl e)
    then show ?thesis using oe s1 by (simp add: pedir_estado.simps [of prompt aviso w])
  next
    case (Inr x)
    show ?thesis
    proof (cases "x = ''1'' \<or> x = ''2''")
      case True
      then show ?thesis
        using oe Inr s1 by (auto simp: pedir_estado.simps [of prompt aviso w])
    next
      case False
      then have "suffix (entrada (snd (pedir_estado prompt aviso (py_print aviso w1)))) (entrada w1)"
        using "1.IH" [OF oe [symmetric] Inr] by simp
      then have "suffix (entrada (snd (pedir_estado prompt aviso w))) (entrada w1)"
        using False oe Inr by (simp add: pedir_estado.simps [of prompt aviso w])
      then show ?thesis
        using s1 by (rule suffix_order.trans)
    qed
  qed
qed

lemma conserva_pedir_estado: "conserva (pedir_estado prompt aviso)"
  by (rule conservaI) (rule pedir_estado_suffix)

lemma conserva_manejar_agregar_libro: "conserva manejar_agregar_libro"
proof (rule conservaI)
  fix w
  have leaf: "conserva (\<lambda>w'. case insertar_libro (db w') a b c d of
             (s', Inl err) \<Rightarrow> (Inl (DBError err), w'\<lparr>db := s'\<rparr>)
           | (s', Inr ok) \<Rightarrow> (Inr (), py_print (x ok) (w'\<lparr>db := s'\<rparr>)))" for a b c d x
    by (auto simp: conserva_def split: prod.splits sum.splits)
  show "suffix (entrada (snd (manejar_agregar_libro w))) (entrada w)"
    unfolding manejar_agregar_libro_def
    by (rule bind_io_suffix)
      (intro conserva_bind conserva_obtener_entrada conserva_pedir_estado leaf | simp)+
qed

lemma conserva_manejar_listado_libros: "conserva (manejar_listado_libros env)"
  by (rule conservaI) (simp add: manejar_listado_libros_def emitir_tabla_def split: prod.splits)

lemma conserva_manejar_buscar_libros: "conserva (manejar_buscar_libros env)"
proof (rule conservaI)
  fix w
  have leaf: "conserva (\<lambda>w'. emitir_tabla (f w') (py_print x w'))" for f x
    by (auto simp: conserva_def emitir_tabla_def split: prod.splits)
  show "suffix (entrada (snd (manejar_buscar_libros env w))) (entrada w)"
    unfolding manejar_buscar_libros_def
    by (rule bind_io_suffix) (intro conserva_obtener_entrada leaf | simp)+
qed

lemma conserva_manejar_actualizar_libro: "conserva (manejar_actualizar_libro env)"
proof (rule conservaI)
  fix w
  have a: "conserva (\<lambda>w5. case actualizar_libro str_e (db w5) i campo (Some v) of
             (s', r) \<Rightarrow> (Inr (), py_print (informar_actualizacion i r) (w5\<lparr>db := s'\<rparr>)))"
    for str_e i campo v
    by (auto simp: conserva_def split: prod.splits)
  have b: "conserva (if campo = ''estado''
                     then pedir_estado prompt_estado_actualizar aviso_estado_actualizar
                     else obtener_entrada p)" for campo p
    by (simp add: conserva_pedir_estado conserva_obtener_entrada)
  have c: "conserva (\<lambda>w4. case campos opcion of
                None \<Rightarrow> (Inr (), py_print x w4)
              | Some campo \<Rightarrow> bind_io (m campo) (f campo) w4)"
    if "\<And>campo. conserva (bind_io (m campo) (f campo))" for opcion x m f
    using that by (cases "campos opcion") (auto simp: conserva_def)
  have e: "conserva (\<lambda>w3. bind_io m f (py_print x1 (py_print x2 (py_print x3 (py_print x4
             (py_print x5 w3))))))" if "conserva (bind_io m f)" for m f x1 x2 x3 x4 x5
  proof (rule conservaI)
    fix w3
    show "suffix (entrada (snd (bind_io m f (py_print x1 (py_print x2 (py_print x3
            (py_print x4 (py_print x5 w3)))))))) (entrada w3)"
      using conserva_snd [OF that, of "py_print x1 (py_print x2 (py_print x3
            (py_print x4 (py_print x5 w3))))"] by simp
  qed
  have d: "conserva (\<lambda>w2. if P then (Inr (), w2) else bind_io m f w2)"
    if "conserva (bind_io m f)" for P m f
    using that by (auto simp: conserva_def)
  show "suffix (entrada (snd (manejar_actualizar_libro env w))) (entrada w)"
    unfolding manejar_actualizar_libro_def
    by (rule bind_io_suffix)
      (intro conserva_bind conserva_emitir_tabla d e c b a
        conserva_obtener_id_valido conserva_obtener_entrada | simp)+
qed

lemma conserva_manejar_eliminar_libro: "conserva (manejar_eliminar_libro env)"
proof (rule conservaI)
  fix w
  have a: "conserva (\<lambda>w4. if Q then (case eliminar_libro (db w4) i of
             (s', ok) \<Rightarrow> (Inr (), py_print (x ok) (w4\<lparr>db := s'\<rparr>)))
           else (Inr (), py_print y w4))" for Q i x y
    by (auto simp: conserva_def split: prod.splits)
  have d: "conserva (\<lambda>w2. if P then (Inr (), w2) else bind_io m f w2)"
    if "conserva (bind_io m f)" for P m f
    using that by (auto simp: conserva_def)
  show "suffix (entrada (snd (manejar_eliminar_libro env w))) (entrada w)"
    unfolding manejar_eliminar_libro_def
    by (rule bind_io_suffix)
      (intro conserva_bind conserva_emitir_tabla d a
        conserva_obtener_id_valido conserva_py_input | simp)+
qed

lemma py_input_consumes:
  "py_input prompt w = (Inr l, w1) \<Longrightarrow> entrada w = l # entrada w1"
  by (auto simp: py_input_def split: list.splits)

lemma conserva_length:
  "conserva m \<Longrightarrow> (r, w') = m w \<Longrightarrow> length (entrada w') \<le> length (entrada w)"
  by (metis conservaD suffix_length_le)

text \<open>
  \<^verbatim>\<open>main\<close>: the \<^verbatim>\<open>while True\<close> loop over the menu. The result is \<open>None\<close> when the loop
  is left by \<^verbatim>\<open>break\<close>, and the exception when one ends the program.
\<close>

definition prompt_menu :: string where
  "prompt_menu = ''Seleccione una opci'' @ [CHR 0xF3] @ ''n (1-6): ''"

definition msg_despedida :: string where
  "msg_despedida = [CHR 0x0A] @ '' '' @ [CHR 0xA1] @ ''Gracias por usar el Administrador de Biblioteca! Saliendo...''"

definition msg_opcion_no_valida :: string where
  "msg_opcion_no_valida = [CHR 0x0A] @ '' Opci'' @ [CHR 0xF3] @ ''n no v'' @ [CHR 0xE1] @ ''lida. Por favor, ingrese un n'' @ [CHR 0xFA] @ ''mero del 1 al 6.''"

text \<open>
  The body of the loop once the option is read: the handler of the option runs, and the
  result says whether the loop goes on (\<open>True\<close>) or is left by \<^verbatim>\<open>break\<close> (\<open>False\<close>).
\<close>

definition seguir :: "(excepcion + unit) \<times> mundo \<Rightarrow> (excepcion + bool) \<times> mundo" where
  "seguir r = (case r of (Inl e, w) \<Rightarrow> (Inl e, w) | (Inr u, w) \<Rightarrow> (Inr True, w))"

definition menu_opcion ::
  "('k::linorder) entorno \<Rightarrow> string \<Rightarrow> mundo \<Rightarrow> (excepcion + bool) \<times> mundo" where
  "menu_opcion env opcion w =
     (if opcion = ''1'' then seguir (manejar_agregar_libro w)
      else if opcion = ''2'' then seguir (manejar_listado_libros env w)
      else if opcion = ''3'' then seguir (manejar_buscar_libros env w)
      else if opcion = ''4'' then seguir (manejar_actualizar_libro env w)
      else if opcion = ''5'' then seguir (manejar_eliminar_libro env w)
      else if opcion = ''6'' then (Inr False, py_print msg_despedida w)
      else (Inr True, py_print msg_opcion_no_valida w))"

lemma conserva_menu_opcion: "conserva (menu_opcion env opcion)"
proof (rule conservaI)
  fix w
  have "suffix (entrada (snd (seguir (m w)))) (entrada w)" if "conserva m" for m
    using conservaD [OF that, of w] by (cases "m w") (auto simp: seguir_def split: sum.splits)
  then show "suffix (entrada (snd (menu_opcion env opcion w))) (entrada w)"
    by (simp add: menu_opcion_def conserva_manejar_agregar_libro
        conserva_manejar_listado_libros conserva_manejar_buscar_libros
        conserva_manejar_actualizar_libro conserva_manejar_eliminar_libro)
qed

lemma menu_opcion_measure:
  assumes "(Inr l, w1) = py_input p (mostrar_menu w)"
    and "(r, w2) = menu_opcion env opcion w1"
  shows "length (entrada w2) < length (entrada w)"
proof -
  have "entrada w = l # entrada w1"
    using py_input_consumes [OF assms(1) [symmetric]] by simp
  moreover have "length (entrada w2) \<le> length (entrada w1)"
    using conserva_menu_opcion assms(2) by (rule conserva_length)
  ultimately show ?thesis by simp
qed

function main_loop :: "('k::linorder) entorno \<Rightarrow> mundo \<Rightarrow> excepcion option \<times> mundo" where
  "main_loop env w =
     (case py_input prompt_menu (mostrar_menu w) of
        (Inl e, w1) \<Rightarrow> (Some e, w1)
      | (Inr l, w1) \<Rightarrow>
          (case menu_opcion env (strip l) w1 of
             (Inl e, w2) \<Rightarrow> (Some e, w2)
           | (Inr continuar, w2) \<Rightarrow> if continuar then main_loop env w2 else (None, w2)))"
  by pat_completeness auto
termination
proof (relation "measure (\<lambda>(env, w). length (entrada w))")
  show "wf (measure (\<lambda>(env :: 'k entorno, w). length (entrada w)))"
    by simp
qed (auto dest: menu_opcion_measure)

declare main_loop.simps [simp del]

subsection \<open>Notions the properties are stated with\<close>

text \<open>The names of the four string columns, the ones the console offers for an update.\<close>

definition es_columna_texto :: "string \<Rightarrow> bool" where
  "es_columna_texto campo = (campo \<in> {''titulo'', ''autor'', ''genero'', ''estado''})"

text \<open>
  A string longer than a column of \<open>n\<close> characters: either what is beyond the column is
  only spaces, or some of it is not.
\<close>

definition sobra_blanco :: "nat \<Rightarrow> string \<Rightarrow> bool" where
  "sobra_blanco n x = (n < length x \<and> list_all (\<lambda>c. c = CHR '' '') (drop n x))"

definition excede :: "nat \<Rightarrow> string \<Rightarrow> bool" where
  "excede n x = (n < length x \<and> list_ex (\<lambda>c. c \<noteq> CHR '' '') (drop n x))"

text \<open>
  The two outcomes of an update of the row \<open>i\<close>. Accepted: the call answers
  \<^verbatim>\<open>(True, None)\<close> and the lookup of \<open>i\<close> then returns the row \<open>l'\<close>. Refused: the
  call answers \<^verbatim>\<open>False\<close> with a message, and the store is the one before the call.
\<close>

definition acepta ::
  "(db_error \<Rightarrow> string) \<Rightarrow> store \<Rightarrow> int \<Rightarrow> string \<Rightarrow> string option \<Rightarrow> libro \<Rightarrow> bool" where
  "acepta str_e s i campo v l' =
     (snd (actualizar_libro str_e s i campo v) = (True, None)
      \<and> obtener_libro_por_id (fst (actualizar_libro str_e s i campo v)) i = Some l')"

definition rechaza ::
  "(db_error \<Rightarrow> string) \<Rightarrow> store \<Rightarrow> int \<Rightarrow> string \<Rightarrow> string option \<Rightarrow> bool" where
  "rechaza str_e s i campo v =
     (fst (snd (actualizar_libro str_e s i campo v)) = False
      \<and> snd (snd (actualizar_libro str_e s i campo v)) \<noteq> None
      \<and> fst (actualizar_libro str_e s i campo v) = s)"

text \<open>A table with one book whose author is written with an accent.\<close>

definition ejemplo_acentos :: store where
  "ejemplo_acentos =
     \<lparr>rows = [\<lparr>libro_id = 1, titulo = ''Relatos'', autor = ''Garc'' @ [CHR 0xED] @ ''a'',
               genero = None, estado = estado_no_leido\<rparr>],
      next_id = 2\<rparr>"

text \<open>
  What a book is apart from the key the table gives it, and the table after a sequence of
  insertions of such books.
\<close>

definition contenido :: "libro \<Rightarrow> string \<times> string \<times> string option \<times> string" where
  "contenido l = (titulo l, autor l, genero l, estado l)"

definition tupla_valida :: "string \<times> string \<times> string option \<times> string \<Rightarrow> bool" where
  "tupla_valida b = (case b of (t, a, g, e) \<Rightarrow> valid_values (Some t) (Some a) g (Some e))"

fun insertar_todos ::
  "store \<Rightarrow> (string \<times> string \<times> string option \<times> string) list \<Rightarrow> store" where
  "insertar_todos s [] = s"
| "insertar_todos s ((t, a, g, e) # bs) =
     insertar_todos (fst (insertar_libro s (Some t) (Some a) g (Some e))) bs"

text \<open>Two books with the same title, and a third with another.\<close>

definition ficciones_1 :: "string \<times> string \<times> string option \<times> string" where
  "ficciones_1 = (''Ficciones'', ''Borges'', Some ''Cuento'', estado_leido)"

definition ficciones_2 :: "string \<times> string \<times> string option \<times> string" where
  "ficciones_2 = (''Ficciones'', ''Anonimo'', None, estado_no_leido)"

definition el_aleph :: "string \<times> string \<times> string option \<times> string" where
  "el_aleph = (''El Aleph'', ''Borges'', None, estado_leido)"

text \<open>
  The line the table prints for a book whose genre is not \<^verbatim>\<open>None\<close>, and a book with an
  id of seven digits and a status of seventeen characters.
\<close>

definition fila :: "libro \<Rightarrow> string" where
  "fila l = (case celdas l of Inr cs \<Rightarrow> linea cs | Inl e \<Rightarrow> [])"

definition libro_ancho :: libro where
  "libro_ancho = \<lparr>libro_id = 1234567, titulo = ''T'', autor = ''A'', genero = Some ''G'',
                   estado = ''Pendiente de leer''\<rparr>"

definition libro_sin_genero :: libro where
  "libro_sin_genero = \<lparr>libro_id = 2, titulo = ''Ficciones'', autor = ''Anonimo'',
                        genero = None, estado = estado_no_leido\<rparr>"

definition libro_largo :: libro where
  "libro_largo = \<lparr>libro_id = 7, titulo = replicate 45 CHR ''x'', autor = ''Borges'',
                   genero = Some ''Cuento'', estado = estado_leido\<rparr>"

section \<open>Properties of the record store\<close>

lemma find_None_ids: "obtener_libro_por_id s i = None \<longleftrightarrow> i \<notin> set (ids s)"
  by (auto simp: obtener_libro_por_id_def ids_def find_None_iff)

text \<open>
  Claim C5. When no row has the id, \<^verbatim>\<open>actualizar_libro\<close> returns \<^verbatim>\<open>False\<close> with the
  message "Libro no encontrado." and \<^verbatim>\<open>eliminar_libro\<close> returns \<^verbatim>\<open>False\<close>, and both
  leave the store exactly as it was.
\<close>

theorem update_delete_missing_id:
  assumes "i \<notin> set (ids s)"
  shows "actualizar_libro str_e s i campo v = (s, (False, Some ''Libro no encontrado.''))
       \<and> eliminar_libro s i = (s, False)"
proof -
  have "obtener_libro_por_id s i = None"
    using assms by (simp add: find_None_ids)
  then show ?thesis
    by (simp add: actualizar_libro_def eliminar_libro_def)
qed

theorem update_delete_missing_id_witness:
  "7 \<notin> set (ids ejemplo)
   \<and> actualizar_libro texto_breve ejemplo 7 ''titulo'' (Some ''Rayuela'')
       = (ejemplo, (False, Some ''Libro no encontrado.''))
   \<and> eliminar_libro ejemplo 7 = (ejemplo, False)"
proof -
  have h: "7 \<notin> set (ids ejemplo)"
    by (simp add: ids_def ejemplo_def)
  show ?thesis
    using h update_delete_missing_id [OF h, of texto_breve "''titulo''" "Some ''Rayuela''"]
    by simp
qed

lemma varchar_fits: "length x \<le> n \<Longrightarrow> varchar n x = Inr x"
  by (simp add: varchar_def)

lemma varchar_blank: "sobra_blanco n x \<Longrightarrow> varchar n x = Inr (take n x)"
  by (simp add: varchar_def sobra_blanco_def)

lemma no_blanco:
  "list_ex (\<lambda>c. c \<noteq> CHR '' '') ys \<longleftrightarrow> \<not> list_all (\<lambda>c. c = CHR '' '') ys"
  by (induction ys) simp_all

lemma varchar_excede: "excede n x \<Longrightarrow> varchar n x = Inl DataError"
  by (simp add: varchar_def excede_def no_blanco)

lemma tres_casos: "length x \<le> n \<or> sobra_blanco n x \<or> excede n x"
  unfolding sobra_blanco_def excede_def no_blanco by linarith

lemma col_check_notnull:
  "col_check False n v = None \<longleftrightarrow> (\<exists>x. v = Some x \<and> length x \<le> n)"
  by (cases v) (auto simp: col_check_def)

lemma col_check_nullable:
  "col_check True n v = None \<longleftrightarrow> (\<forall>x. v = Some x \<longrightarrow> length x \<le> n)"
  by (cases v) (auto simp: col_check_def)

lemma first_error_None: "first_error cs = None \<longleftrightarrow> (\<forall>c\<in>set cs. c = None)"
  by (induction cs rule: first_error.induct) auto

lemma col_nullable_fits: "col_check True n v = None \<Longrightarrow> col_nullable n v = Inr v"
  by (cases v) (auto simp: col_nullable_def col_check_def varchar_fits split: if_splits)

lemma valid_valuesD:
  assumes "valid_values t a g e"
  obtains t' a' e' where "t = Some t'" "a = Some a'" "e = Some e'"
    and "fila_nueva t a g e = Inr (t', a', g, e')"
proof -
  from assms obtain t' a' e' where v: "t = Some t'" "a = Some a'" "e = Some e'"
    and l: "length t' \<le> 255" "length a' \<le> 255" "length e' \<le> 20"
    and g: "col_check True 100 g = None"
    by (auto simp: valid_values_def first_error_None col_check_notnull)
  have "fila_nueva t a g e = Inr (t', a', g, e')"
    using l by (simp add: fila_nueva_def v col_not_null_def varchar_fits col_nullable_fits [OF g])
  with v show ?thesis by (rule that)
qed

lemma find_append_new:
  "i \<notin> libro_id ` set xs \<Longrightarrow> libro_id l = i \<Longrightarrow> find (\<lambda>r. libro_id r = i) (xs @ [l]) = Some l"
  by (induction xs) auto

lemma wf_fresh: "wf_store s \<Longrightarrow> next_id s \<notin> set (ids s)"
  by (auto simp: wf_store_def list_all_iff)

lemma wf_ejemplo: "wf_store ejemplo"
  by (simp add: wf_store_def ids_def ejemplo_def)

lemma insertar_valid:
  assumes "wf_store s" and "fila_nueva t a g e = Inr (t', a', g', e')"
  shows "insertar_libro s t a g e
           = (s\<lparr>rows := rows s @ [\<lparr>libro_id = next_id s, titulo = t', autor = a',
                                    genero = g', estado = e'\<rparr>],
                 next_id := next_id s + 1\<rparr>, Inr True)"
    and "wf_store (fst (insertar_libro s t a g e))"
proof -
  have fresh: "next_id s \<notin> set (ids s)" using assms(1) by (rule wf_fresh)
  show 1: "insertar_libro s t a g e
           = (s\<lparr>rows := rows s @ [\<lparr>libro_id = next_id s, titulo = t', autor = a',
                                    genero = g', estado = e'\<rparr>],
                 next_id := next_id s + 1\<rparr>, Inr True)"
    using fresh assms(2) by (simp add: insertar_libro_def)
  show "wf_store (fst (insertar_libro s t a g e))"
    unfolding 1 using assms(1) fresh by (auto simp: wf_store_def ids_def list_all_iff)
qed

text \<open>
  Claim C1. On a table whose keys are unique and below the counter, inserting a tuple the
  table accepts succeeds, and looking up the key the counter assigned returns a row with
  exactly the inserted title, author, genre and status; that key is the id of no row that
  was there before, and the new table has the old keys and this one.
\<close>

theorem insert_then_get:
  assumes "wf_store s" and "valid_values t a g e"
  shows "\<exists>s' l. insertar_libro s t a g e = (s', Inr True)
           \<and> obtener_libro_por_id s' (next_id s) = Some l
           \<and> Some (titulo l) = t \<and> Some (autor l) = a \<and> genero l = g \<and> Some (estado l) = e
           \<and> libro_id l = next_id s
           \<and> next_id s \<notin> set (ids s)
           \<and> ids s' = ids s @ [next_id s]
           \<and> wf_store s'"
proof -
  from assms(2) obtain t' a' e' where v: "t = Some t'" "a = Some a'" "e = Some e'"
    and f: "fila_nueva t a g e = Inr (t', a', g, e')"
    by (rule valid_valuesD)
  have fresh: "next_id s \<notin> set (ids s)" using assms(1) by (rule wf_fresh)
  let ?l = "\<lparr>libro_id = next_id s, titulo = t', autor = a', genero = g, estado = e'\<rparr>"
  let ?s' = "s\<lparr>rows := rows s @ [?l], next_id := next_id s + 1\<rparr>"
  have ins: "insertar_libro s t a g e = (?s', Inr True)"
    using insertar_valid(1) [OF assms(1) f] .
  have get: "obtener_libro_por_id ?s' (next_id s) = Some ?l"
    using fresh by (simp add: obtener_libro_por_id_def ids_def find_append_new)
  have wf: "wf_store ?s'"
    using insertar_valid(2) [OF assms(1) f] ins by simp
  show ?thesis
    using ins get fresh wf by (simp add: v ids_def)
qed

theorem insert_then_get_witness:
  "wf_store ejemplo
   \<and> valid_values (Some ''Rayuela'') (Some ''Cortazar'') None (Some estado_leido)
   \<and> insertar_libro ejemplo (Some ''Rayuela'') (Some ''Cortazar'') None (Some estado_leido)
       = (\<lparr>rows = rows ejemplo @
                  [\<lparr>libro_id = 2, titulo = ''Rayuela'', autor = ''Cortazar'', genero = None,
                    estado = estado_leido\<rparr>],
            next_id = 3\<rparr>, Inr True)
   \<and> (\<exists>s' l. insertar_libro ejemplo (Some ''Rayuela'') (Some ''Cortazar'') None
                 (Some estado_leido) = (s', Inr True)
            \<and> obtener_libro_por_id s' 2 = Some l \<and> titulo l = ''Rayuela''
            \<and> libro_id l = 2 \<and> 2 \<notin> set (ids ejemplo))"
proof -
  have v: "valid_values (Some ''Rayuela'') (Some ''Cortazar'') None (Some estado_leido)"
    by (simp add: valid_values_def col_check_def estado_leido_def)
  have n: "next_id ejemplo = 2"
    by (simp add: ejemplo_def)
  have c: "insertar_libro ejemplo (Some ''Rayuela'') (Some ''Cortazar'') None (Some estado_leido)
       = (\<lparr>rows = rows ejemplo @
                  [\<lparr>libro_id = 2, titulo = ''Rayuela'', autor = ''Cortazar'', genero = None,
                    estado = estado_leido\<rparr>],
            next_id = 3\<rparr>, Inr True)"
    by (simp add: insertar_libro_def fila_nueva_def col_not_null_def col_nullable_def
        varchar_def estado_leido_def ejemplo_def ids_def)
  show ?thesis
    using insert_then_get [OF wf_ejemplo v] wf_ejemplo v c unfolding n by auto
qed

subsection \<open>Updates\<close>

lemma find_map_update:
  "find (\<lambda>r. libro_id r = i) rs = Some l \<Longrightarrow> libro_id l' = i \<Longrightarrow>
   find (\<lambda>r. libro_id r = i) (map (\<lambda>r. if libro_id r = i then l' else r) rs) = Some l'"
  by (induction rs) (auto split: if_splits)

lemma find_map_other:
  "j \<noteq> i \<Longrightarrow> libro_id l' = i \<Longrightarrow>
   find (\<lambda>r. libro_id r = j) (map (\<lambda>r. if libro_id r = i then l' else r) rs)
     = find (\<lambda>r. libro_id r = j) rs"
  by (induction rs) auto

lemma found_id: "obtener_libro_por_id s i = Some l \<Longrightarrow> libro_id l = i"
  by (auto simp: obtener_libro_por_id_def find_Some_iff)

lemma actualizar_ok:
  assumes "obtener_libro_por_id s i = Some l" and "setattr_commit s l campo v = Inr l'"
    and "libro_id l' = i"
  shows "actualizar_libro str_e s i campo v
           = (s\<lparr>rows := map (\<lambda>r. if libro_id r = i then l' else r) (rows s)\<rparr>, (True, None))"
    and "obtener_libro_por_id (fst (actualizar_libro str_e s i campo v)) i = Some l'"
    and "j \<noteq> i \<Longrightarrow> obtener_libro_por_id (fst (actualizar_libro str_e s i campo v)) j
           = obtener_libro_por_id s j"
  using assms
  by (simp_all add: actualizar_libro_def obtener_libro_por_id_def find_map_update find_map_other)

lemma actualizar_failed:
  assumes "obtener_libro_por_id s i = Some l" and "setattr_commit s l campo v = Inl err"
  shows "actualizar_libro str_e s i campo v
           = (s, (False, Some (''Error al actualizar: '' @ str_e err)))"
  using assms by (simp add: actualizar_libro_def)

lemma actualizar_failure_unchanged:
  "fst (snd (actualizar_libro str_e s i campo v)) = False
   \<Longrightarrow> fst (actualizar_libro str_e s i campo v) = s"
  by (auto simp: actualizar_libro_def split: option.splits sum.splits)

lemma acepta_si:
  assumes "obtener_libro_por_id s i = Some l" and "setattr_commit s l campo v = Inr l'"
    and "libro_id l' = libro_id l"
  shows "acepta str_e s i campo v l'"
proof -
  have "libro_id l' = i" using assms(3) found_id [OF assms(1)] by simp
  then show ?thesis
    using actualizar_ok(1,2) [OF assms(1,2)] by (simp add: acepta_def)
qed

lemma rechaza_si:
  assumes "obtener_libro_por_id s i = Some l" and "setattr_commit s l campo v = Inl err"
  shows "rechaza str_e s i campo v"
  using actualizar_failed [OF assms] by (simp add: rechaza_def)

lemma acepta_no_rechaza: "acepta str_e s i campo v l' \<Longrightarrow> \<not> rechaza str_e s i campo v"
  by (simp add: acepta_def rechaza_def)

lemma setattr_commit_frame:
  assumes "setattr_commit s l campo v = Inr l'" and "es_columna_texto campo"
  shows "libro_id l' = libro_id l
       \<and> (campo \<noteq> ''titulo'' \<longrightarrow> titulo l' = titulo l)
       \<and> (campo \<noteq> ''autor'' \<longrightarrow> autor l' = autor l)
       \<and> (campo \<noteq> ''genero'' \<longrightarrow> genero l' = genero l)
       \<and> (campo \<noteq> ''estado'' \<longrightarrow> estado l' = estado l)"
  using assms
  by (auto simp: setattr_commit_def es_columna_texto_def split: if_splits sum.splits)

lemma actualizar_frame:
  assumes "obtener_libro_por_id s i = Some l" and "es_columna_texto campo"
  shows "\<exists>l'. obtener_libro_por_id (fst (actualizar_libro str_e s i campo v)) i = Some l'
           \<and> libro_id l' = libro_id l
           \<and> (campo \<noteq> ''titulo'' \<longrightarrow> titulo l' = titulo l)
           \<and> (campo \<noteq> ''autor'' \<longrightarrow> autor l' = autor l)
           \<and> (campo \<noteq> ''genero'' \<longrightarrow> genero l' = genero l)
           \<and> (campo \<noteq> ''estado'' \<longrightarrow> estado l' = estado l)"
proof (cases "setattr_commit s l campo v")
  case (Inl err)
  then show ?thesis
    using actualizar_failed [OF assms(1) Inl] assms(1) by simp
next
  case (Inr l')
  have f: "libro_id l' = libro_id l
       \<and> (campo \<noteq> ''titulo'' \<longrightarrow> titulo l' = titulo l)
       \<and> (campo \<noteq> ''autor'' \<longrightarrow> autor l' = autor l)
       \<and> (campo \<noteq> ''genero'' \<longrightarrow> genero l' = genero l)
       \<and> (campo \<noteq> ''estado'' \<longrightarrow> estado l' = estado l)"
    using Inr assms(2) by (rule setattr_commit_frame)
  then have "libro_id l' = i" using found_id [OF assms(1)] by simp
  then have "obtener_libro_por_id (fst (actualizar_libro str_e s i campo v)) i = Some l'"
    using actualizar_ok(2) [OF assms(1) Inr] by simp
  then show ?thesis using f by blast
qed

lemma actualizar_others:
  assumes "obtener_libro_por_id s i = Some l" and "es_columna_texto campo" and "j \<noteq> i"
  shows "obtener_libro_por_id (fst (actualizar_libro str_e s i campo v)) j
           = obtener_libro_por_id s j"
proof (cases "setattr_commit s l campo v")
  case (Inl err)
  then show ?thesis
    using actualizar_failed [OF assms(1) Inl] by simp
next
  case (Inr l')
  have "libro_id l' = i"
    using setattr_commit_frame [OF Inr assms(2)] found_id [OF assms(1)] by simp
  then show ?thesis
    using actualizar_ok(3) [OF assms(1) Inr _ assms(3)] by simp
qed

text \<open>The four columns, one by one: what \<^const>\<open>setattr_commit\<close> does with each value.\<close>

lemma col_not_null_cases:
  "length x \<le> n \<Longrightarrow> col_not_null n (Some x) = Inr x"
  "sobra_blanco n x \<Longrightarrow> col_not_null n (Some x) = Inr (take n x)"
  "excede n x \<Longrightarrow> col_not_null n (Some x) = Inl DataError"
  "col_not_null n None = Inl IntegrityError"
  by (simp_all add: col_not_null_def varchar_fits varchar_blank varchar_excede)

lemma col_nullable_cases:
  "length x \<le> n \<Longrightarrow> col_nullable n (Some x) = Inr (Some x)"
  "sobra_blanco n x \<Longrightarrow> col_nullable n (Some x) = Inr (Some (take n x))"
  "excede n x \<Longrightarrow> col_nullable n (Some x) = Inl DataError"
  "col_nullable n None = Inr None"
  by (simp_all add: col_nullable_def varchar_fits varchar_blank varchar_excede)

lemma update_titulo:
  assumes "obtener_libro_por_id s i = Some l"
  shows "(length x \<le> 255 \<longrightarrow> acepta str_e s i ''titulo'' (Some x) (l\<lparr>titulo := x\<rparr>))
       \<and> (sobra_blanco 255 x \<longrightarrow>
            acepta str_e s i ''titulo'' (Some x) (l\<lparr>titulo := take 255 x\<rparr>))
       \<and> (excede 255 x \<longrightarrow> rechaza str_e s i ''titulo'' (Some x))
       \<and> rechaza str_e s i ''titulo'' None"
proof -
  have "setattr_commit s l ''titulo'' v
          = (case col_not_null 255 v of Inl err \<Rightarrow> Inl err | Inr y \<Rightarrow> Inr (l\<lparr>titulo := y\<rparr>))"
    for v
    by (simp add: setattr_commit_def)
  then show ?thesis
    using acepta_si [OF assms, of "''titulo''"] rechaza_si [OF assms, of "''titulo''"]
    by (simp add: col_not_null_cases)
qed

lemma update_autor:
  assumes "obtener_libro_por_id s i = Some l"
  shows "(length x \<le> 255 \<longrightarrow> acepta str_e s i ''autor'' (Some x) (l\<lparr>autor := x\<rparr>))
       \<and> (sobra_blanco 255 x \<longrightarrow>
            acepta str_e s i ''autor'' (Some x) (l\<lparr>autor := take 255 x\<rparr>))
       \<and> (excede 255 x \<longrightarrow> rechaza str_e s i ''autor'' (Some x))
       \<and> rechaza str_e s i ''autor'' None"
proof -
  have "setattr_commit s l ''autor'' v
          = (case col_not_null 255 v of Inl err \<Rightarrow> Inl err | Inr y \<Rightarrow> Inr (l\<lparr>autor := y\<rparr>))"
    for v
    by (simp add: setattr_commit_def)
  then show ?thesis
    using acepta_si [OF assms, of "''autor''"] rechaza_si [OF assms, of "''autor''"]
    by (simp add: col_not_null_cases)
qed

lemma update_genero:
  assumes "obtener_libro_por_id s i = Some l"
  shows "(length x \<le> 100 \<longrightarrow> acepta str_e s i ''genero'' (Some x) (l\<lparr>genero := Some x\<rparr>))
       \<and> (sobra_blanco 100 x \<longrightarrow>
            acepta str_e s i ''genero'' (Some x) (l\<lparr>genero := Some (take 100 x)\<rparr>))
       \<and> (excede 100 x \<longrightarrow> rechaza str_e s i ''genero'' (Some x))
       \<and> acepta str_e s i ''genero'' None (l\<lparr>genero := None\<rparr>)"
proof -
  have "setattr_commit s l ''genero'' v
          = (case col_nullable 100 v of Inl err \<Rightarrow> Inl err | Inr y \<Rightarrow> Inr (l\<lparr>genero := y\<rparr>))"
    for v
    by (simp add: setattr_commit_def)
  then show ?thesis
    using acepta_si [OF assms, of "''genero''"] rechaza_si [OF assms, of "''genero''"]
    by (simp add: col_nullable_cases)
qed

lemma update_estado:
  assumes "obtener_libro_por_id s i = Some l"
  shows "(length x \<le> 20 \<longrightarrow> acepta str_e s i ''estado'' (Some x) (l\<lparr>estado := x\<rparr>))
       \<and> (sobra_blanco 20 x \<longrightarrow>
            acepta str_e s i ''estado'' (Some x) (l\<lparr>estado := take 20 x\<rparr>))
       \<and> (excede 20 x \<longrightarrow> rechaza str_e s i ''estado'' (Some x))
       \<and> rechaza str_e s i ''estado'' None"
proof -
  have "setattr_commit s l ''estado'' v
          = (case col_not_null 20 v of Inl err \<Rightarrow> Inl err | Inr y \<Rightarrow> Inr (l\<lparr>estado := y\<rparr>))"
    for v
    by (simp add: setattr_commit_def)
  then show ?thesis
    using acepta_si [OF assms, of "''estado''"] rechaza_si [OF assms, of "''estado''"]
    by (simp add: col_not_null_cases)
qed

text \<open>
  Claim C3, as amended. For a row that exists, each of the four fields and every value:
  a string within the column's length (and, for the genre, \<^verbatim>\<open>None\<close>) is accepted, and
  the lookup of the id then returns the row with that field set to the value and the id
  and the three other fields as before; a longer string with only spaces beyond the
  column's length is accepted and stored cut to that length; a longer string with another
  character beyond it, and \<^verbatim>\<open>None\<close> for the title, the author or the status, are
  refused: the call answers \<^verbatim>\<open>False\<close> with a message and the store, so the row, is as
  before.
\<close>

theorem update_then_get:
  assumes "obtener_libro_por_id s i = Some l"
  shows "((length x \<le> 255 \<longrightarrow> acepta str_e s i ''titulo'' (Some x) (l\<lparr>titulo := x\<rparr>))
          \<and> (sobra_blanco 255 x \<longrightarrow>
               acepta str_e s i ''titulo'' (Some x) (l\<lparr>titulo := take 255 x\<rparr>))
          \<and> (excede 255 x \<longrightarrow> rechaza str_e s i ''titulo'' (Some x))
          \<and> rechaza str_e s i ''titulo'' None)
       \<and> ((length x \<le> 255 \<longrightarrow> acepta str_e s i ''autor'' (Some x) (l\<lparr>autor := x\<rparr>))
          \<and> (sobra_blanco 255 x \<longrightarrow>
               acepta str_e s i ''autor'' (Some x) (l\<lparr>autor := take 255 x\<rparr>))
          \<and> (excede 255 x \<longrightarrow> rechaza str_e s i ''autor'' (Some x))
          \<and> rechaza str_e s i ''autor'' None)
       \<and> ((length x \<le> 100 \<longrightarrow>
               acepta str_e s i ''genero'' (Some x) (l\<lparr>genero := Some x\<rparr>))
          \<and> (sobra_blanco 100 x \<longrightarrow>
               acepta str_e s i ''genero'' (Some x) (l\<lparr>genero := Some (take 100 x)\<rparr>))
          \<and> (excede 100 x \<longrightarrow> rechaza str_e s i ''genero'' (Some x))
          \<and> acepta str_e s i ''genero'' None (l\<lparr>genero := None\<rparr>))
       \<and> ((length x \<le> 20 \<longrightarrow> acepta str_e s i ''estado'' (Some x) (l\<lparr>estado := x\<rparr>))
          \<and> (sobra_blanco 20 x \<longrightarrow>
               acepta str_e s i ''estado'' (Some x) (l\<lparr>estado := take 20 x\<rparr>))
          \<and> (excede 20 x \<longrightarrow> rechaza str_e s i ''estado'' (Some x))
          \<and> rechaza str_e s i ''estado'' None)"
  using update_titulo [OF assms, of x str_e] update_autor [OF assms, of x str_e]
    update_genero [OF assms, of x str_e] update_estado [OF assms, of x str_e]
  by blast

lemma ejemplo_1:
  "obtener_libro_por_id ejemplo 1
     = Some \<lparr>libro_id = 1, titulo = ''Cien anos de soledad'', autor = ''Garcia Marquez'',
             genero = Some ''Novela'', estado = estado_no_leido\<rparr>"
  by (simp add: obtener_libro_por_id_def ejemplo_def)

theorem update_then_get_witness:
  "obtener_libro_por_id ejemplo 1
     = Some \<lparr>libro_id = 1, titulo = ''Cien anos de soledad'', autor = ''Garcia Marquez'',
             genero = Some ''Novela'', estado = estado_no_leido\<rparr>
   \<and> length ''Rayuela'' \<le> 255 \<and> length ''Rayuela'' \<le> 100 \<and> length ''Rayuela'' \<le> 20
   \<and> acepta texto_breve ejemplo 1 ''titulo'' (Some ''Rayuela'')
       \<lparr>libro_id = 1, titulo = ''Rayuela'', autor = ''Garcia Marquez'',
        genero = Some ''Novela'', estado = estado_no_leido\<rparr>
   \<and> acepta texto_breve ejemplo 1 ''genero'' None
       \<lparr>libro_id = 1, titulo = ''Cien anos de soledad'', autor = ''Garcia Marquez'',
        genero = None, estado = estado_no_leido\<rparr>
   \<and> rechaza texto_breve ejemplo 1 ''autor'' None
   \<and> fst (actualizar_libro texto_breve ejemplo 1 ''autor'' None) = ejemplo"
  using update_then_get [OF ejemplo_1, of "''Rayuela''" texto_breve] ejemplo_1
  by (simp add: rechaza_def)

lemma largo_256:
  "excede 255 (replicate 256 CHR ''x'')" "sobra_blanco 20 (replicate 21 CHR '' '')"
  by (simp_all add: excede_def sobra_blanco_def)

text \<open>
  The claim as stated, for every new value, fails: the title of book 1 cannot be set to
  \<^verbatim>\<open>None\<close> nor to 256 letters. The update answers \<^verbatim>\<open>False\<close> with a message and the
  row keeps its title.
\<close>

theorem update_any_value_counterexample:
  "obtener_libro_por_id ejemplo 1
     = Some \<lparr>libro_id = 1, titulo = ''Cien anos de soledad'', autor = ''Garcia Marquez'',
             genero = Some ''Novela'', estado = estado_no_leido\<rparr>
   \<and> fst (snd (actualizar_libro texto_breve ejemplo 1 ''titulo'' None)) = False
   \<and> map_option titulo
        (obtener_libro_por_id (fst (actualizar_libro texto_breve ejemplo 1 ''titulo'' None)) 1)
       = Some ''Cien anos de soledad''
   \<and> fst (snd (actualizar_libro texto_breve ejemplo 1 ''titulo''
                  (Some (replicate 256 CHR ''x'')))) = False
   \<and> map_option titulo
        (obtener_libro_por_id
           (fst (actualizar_libro texto_breve ejemplo 1 ''titulo''
                   (Some (replicate 256 CHR ''x'')))) 1)
       = Some ''Cien anos de soledad''"
proof -
  have a: "rechaza texto_breve ejemplo 1 ''titulo'' None"
    using update_titulo [OF ejemplo_1] by blast
  have b: "rechaza texto_breve ejemplo 1 ''titulo'' (Some (replicate 256 CHR ''x''))"
    using update_titulo [OF ejemplo_1] largo_256(1) by blast
  show ?thesis
    using a b ejemplo_1 by (simp add: rechaza_def)
qed

lemma estado_falla_iff:
  assumes "obtener_libro_por_id s i = Some l"
  shows "fst (snd (actualizar_libro str_e s i ''estado'' v)) = False
         \<longleftrightarrow> v = None \<or> (\<exists>y. v = Some y \<and> excede 20 y)"
proof (cases v)
  case None
  then show ?thesis
    using update_estado [OF assms, of _ str_e] by (simp add: rechaza_def)
next
  case (Some y)
  consider "length y \<le> 20" | "sobra_blanco 20 y" | "excede 20 y"
    using tres_casos by blast
  then show ?thesis
  proof cases
    case 1
    then have "\<not> excede 20 y" by (simp add: excede_def)
    then show ?thesis
      using 1 Some update_estado [OF assms, of y str_e] by (simp add: acepta_def)
  next
    case 2
    then have "\<not> excede 20 y" by (simp add: excede_def sobra_blanco_def no_blanco)
    then show ?thesis
      using 2 Some update_estado [OF assms, of y str_e] by (simp add: acepta_def)
  next
    case 3
    then show ?thesis
      using Some update_estado [OF assms, of y str_e] by (simp add: rechaza_def)
  qed
qed

lemma pedir_estado_valores:
  "pedir_estado prompt aviso w = (Inr x, w') \<Longrightarrow> x \<in> set ESTADOS_LECTURA"
proof (induction prompt aviso w rule: pedir_estado.induct)
  case (1 prompt aviso w)
  obtain r w1 where oe: "obtener_entrada prompt w = (r, w1)"
    by (cases "obtener_entrada prompt w")
  show ?case
  proof (cases r)
    case (Inl e)
    then show ?thesis
      using "1.prems" oe by (simp add: pedir_estado.simps [of prompt aviso w])
  next
    case (Inr y)
    show ?thesis
    proof (cases "y = ''1'' \<or> y = ''2''")
      case True
      then show ?thesis
        using "1.prems" oe Inr
        by (auto simp: pedir_estado.simps [of prompt aviso w] ESTADOS_LECTURA_def)
    next
      case False
      then have "pedir_estado prompt aviso (py_print aviso w1) = (Inr x, w')"
        using "1.prems" oe Inr by (simp add: pedir_estado.simps [of prompt aviso w])
      then show ?thesis
        using "1.IH" [OF oe [symmetric] Inr] False by simp
    qed
  qed
qed

text \<open>
  Claim C4, as amended. The update of the status of a row that exists does not compare the
  value with \<^verbatim>\<open>ESTADOS_LECTURA\<close>: every string of at most 20 characters is stored and
  \<^verbatim>\<open>(True, None)\<close> returned. The update of the status answers \<^verbatim>\<open>False\<close> exactly for
  \<^verbatim>\<open>None\<close> and for a string with a character other than a space beyond the twentieth.
  Whatever the field and the value, an update that answers \<^verbatim>\<open>False\<close> leaves the store as
  it was. With one of the four field names, the row keeps its id and every field but the
  named one, and no other row changes. The two values are chosen in the console: the loop
  with which both handlers ask for the status returns a member of \<^verbatim>\<open>ESTADOS_LECTURA\<close>
  whenever it returns.
\<close>

theorem update_estado_unvalidated:
  assumes "obtener_libro_por_id s i = Some l"
  shows "(length x \<le> 20 \<longrightarrow>
            actualizar_libro str_e s i ''estado'' (Some x)
              = (s\<lparr>rows := map (\<lambda>r. if libro_id r = i then l\<lparr>estado := x\<rparr> else r) (rows s)\<rparr>,
                 (True, None)))
       \<and> (fst (snd (actualizar_libro str_e s i ''estado'' v)) = False
            \<longleftrightarrow> v = None \<or> (\<exists>y. v = Some y \<and> excede 20 y))
       \<and> (fst (snd (actualizar_libro str_e s i campo v)) = False \<longrightarrow>
            fst (actualizar_libro str_e s i campo v) = s)
       \<and> (es_columna_texto campo \<longrightarrow>
            (\<exists>l'. obtener_libro_por_id (fst (actualizar_libro str_e s i campo v)) i = Some l'
               \<and> libro_id l' = libro_id l
               \<and> (campo \<noteq> ''titulo'' \<longrightarrow> titulo l' = titulo l)
               \<and> (campo \<noteq> ''autor'' \<longrightarrow> autor l' = autor l)
               \<and> (campo \<noteq> ''genero'' \<longrightarrow> genero l' = genero l)
               \<and> (campo \<noteq> ''estado'' \<longrightarrow> estado l' = estado l))
          \<and> (\<forall>j. j \<noteq> i \<longrightarrow>
                obtener_libro_por_id (fst (actualizar_libro str_e s i campo v)) j
                  = obtener_libro_por_id s j))
       \<and> (pedir_estado prompt aviso w = (Inr e, w') \<longrightarrow> e \<in> set ESTADOS_LECTURA)"
proof -
  have i: "libro_id l = i" using assms by (rule found_id)
  have ok: "length x \<le> 20 \<Longrightarrow> setattr_commit s l ''estado'' (Some x) = Inr (l\<lparr>estado := x\<rparr>)"
    by (simp add: setattr_commit_def col_not_null_cases)
  have 1: "length x \<le> 20 \<longrightarrow>
            actualizar_libro str_e s i ''estado'' (Some x)
              = (s\<lparr>rows := map (\<lambda>r. if libro_id r = i then l\<lparr>estado := x\<rparr> else r) (rows s)\<rparr>,
                 (True, None))"
    using actualizar_ok(1) [OF assms ok] i by simp
  have 2: "fst (snd (actualizar_libro str_e s i ''estado'' v)) = False
            \<longleftrightarrow> v = None \<or> (\<exists>y. v = Some y \<and> excede 20 y)"
    using assms by (rule estado_falla_iff)
  have 3: "fst (snd (actualizar_libro str_e s i campo v)) = False \<longrightarrow>
            fst (actualizar_libro str_e s i campo v) = s"
    using actualizar_failure_unchanged by blast
  have 4: "es_columna_texto campo \<longrightarrow>
            (\<exists>l'. obtener_libro_por_id (fst (actualizar_libro str_e s i campo v)) i = Some l'
               \<and> libro_id l' = libro_id l
               \<and> (campo \<noteq> ''titulo'' \<longrightarrow> titulo l' = titulo l)
               \<and> (campo \<noteq> ''autor'' \<longrightarrow> autor l' = autor l)
               \<and> (campo \<noteq> ''genero'' \<longrightarrow> genero l' = genero l)
               \<and> (campo \<noteq> ''estado'' \<longrightarrow> estado l' = estado l))"
    using actualizar_frame [OF assms] by blast
  have 5: "es_columna_texto campo \<longrightarrow> (\<forall>j. j \<noteq> i \<longrightarrow>
                obtener_libro_por_id (fst (actualizar_libro str_e s i campo v)) j
                  = obtener_libro_por_id s j)"
    using actualizar_others [OF assms] by blast
  have 6: "pedir_estado prompt aviso w = (Inr e, w') \<longrightarrow> e \<in> set ESTADOS_LECTURA"
    using pedir_estado_valores by blast
  from 1 2 3 4 5 6 show ?thesis by blast
qed

lemma pedir_estado_ejemplo:
  "pedir_estado prompt_estado_actualizar aviso_estado_actualizar
     \<lparr>db = ejemplo, entrada = [''3'', '' 2 ''], salida = []\<rparr>
   = (Inr estado_no_leido,
      \<lparr>db = ejemplo, entrada = [],
       salida = [Prompt prompt_estado_actualizar, Print aviso_estado_actualizar,
                 Prompt prompt_estado_actualizar]\<rparr>)"
  by (simp add: pedir_estado.simps obtener_entrada.simps py_input_def py_print_def strip_def
      is_space_def ESTADOS_LECTURA_def)

theorem update_estado_unvalidated_witness:
  "obtener_libro_por_id ejemplo 1 \<noteq> None
   \<and> ''Prestado'' \<notin> set ESTADOS_LECTURA
   \<and> length ''Prestado'' \<le> 20
   \<and> actualizar_libro texto_breve ejemplo 1 ''estado'' (Some ''Prestado'')
       = (ejemplo\<lparr>rows := [\<lparr>libro_id = 1, titulo = ''Cien anos de soledad'',
                              autor = ''Garcia Marquez'', genero = Some ''Novela'',
                              estado = ''Prestado''\<rparr>]\<rparr>, (True, None))
   \<and> fst (snd (actualizar_libro texto_breve ejemplo 1 ''estado'' None)) = False
   \<and> fst (actualizar_libro texto_breve ejemplo 1 ''estado'' None) = ejemplo
   \<and> es_columna_texto ''estado''
   \<and> fst (pedir_estado prompt_estado_actualizar aviso_estado_actualizar
            \<lparr>db = ejemplo, entrada = [''3'', '' 2 ''], salida = []\<rparr>) = Inr estado_no_leido
   \<and> estado_no_leido \<in> set ESTADOS_LECTURA"
  using update_estado_unvalidated [OF ejemplo_1, of "''Prestado''" texto_breve None
      "''estado''" prompt_estado_actualizar aviso_estado_actualizar
      "\<lparr>db = ejemplo, entrada = [''3'', '' 2 ''], salida = []\<rparr>" estado_no_leido]
    ejemplo_1 pedir_estado_ejemplo
  by (simp add: ESTADOS_LECTURA_def estado_leido_def estado_no_leido_def ejemplo_def
      es_columna_texto_def)

text \<open>
  The claim as stated fails: \<^verbatim>\<open>'Prestado'\<close> is not one of the two reading statuses, and
  the update to it succeeds and is stored.
\<close>

theorem update_estado_counterexample:
  "obtener_libro_por_id ejemplo 1 \<noteq> None
   \<and> ''Prestado'' \<notin> set ESTADOS_LECTURA
   \<and> snd (actualizar_libro texto_breve ejemplo 1 ''estado'' (Some ''Prestado'')) = (True, None)
   \<and> map_option estado
        (obtener_libro_por_id
           (fst (actualizar_libro texto_breve ejemplo 1 ''estado'' (Some ''Prestado''))) 1)
       = Some ''Prestado''"
proof -
  have "acepta texto_breve ejemplo 1 ''estado'' (Some ''Prestado'')
          \<lparr>libro_id = 1, titulo = ''Cien anos de soledad'', autor = ''Garcia Marquez'',
           genero = Some ''Novela'', estado = ''Prestado''\<rparr>"
    using update_estado [OF ejemplo_1, of "''Prestado''" texto_breve] by simp
  then show ?thesis
    using ejemplo_1
    by (simp add: acepta_def ESTADOS_LECTURA_def estado_leido_def estado_no_leido_def)
qed

text \<open>
  The claim C7 as stated fails: no call of \<^verbatim>\<open>actualizar_libro\<close> returns
  \<^verbatim>\<open>(False, None)\<close>.
\<close>

theorem update_third_outcome_counterexample:
  "\<not> (\<exists>str_e s i campo v s'. actualizar_libro str_e s i campo v = (s', (False, None)))"
  by (auto simp: actualizar_libro_def split: option.splits sum.splits)

lemma mensajes_distintos:
  "msg_actualizado j \<noteq> msg_ninguna_actualizacion"
  "msg_no_se_pudo m \<noteq> msg_ninguna_actualizacion"
  by (simp_all add: msg_actualizado_def msg_no_se_pudo_def msg_ninguna_actualizacion_def)

lemma actualizar_two_cases:
  "(snd (actualizar_libro str_e s i campo v) = (True, None)
    \<and> informar_actualizacion j (snd (actualizar_libro str_e s i campo v)) = msg_actualizado j)
   \<or> (\<exists>m. snd (actualizar_libro str_e s i campo v) = (False, Some m) \<and> m \<noteq> []
        \<and> informar_actualizacion j (snd (actualizar_libro str_e s i campo v))
            = msg_no_se_pudo m)"
  by (auto simp: actualizar_libro_def informar_actualizacion_def split: option.splits sum.splits)

text \<open>
  Claim C7, as amended. Every call of \<^verbatim>\<open>actualizar_libro\<close> returns \<^verbatim>\<open>(True, None)\<close> or
  \<^verbatim>\<open>False\<close> with a message that is not empty, so the console reports either the success
  or the error; the third message of \<^verbatim>\<open>manejar_actualizar_libro\<close>, for neither, is never
  the one chosen.
\<close>

theorem update_two_outcomes:
  "(snd (actualizar_libro str_e s i campo v) = (True, None)
    \<or> (\<exists>m. snd (actualizar_libro str_e s i campo v) = (False, Some m) \<and> m \<noteq> []))
   \<and> informar_actualizacion j (snd (actualizar_libro str_e s i campo v))
       \<noteq> msg_ninguna_actualizacion"
  using actualizar_two_cases [of str_e s i campo v j] mensajes_distintos by metis

subsection \<open>Searching\<close>

declare like_match.simps(2) [simp del]

lemma like_match_Cons_Nil [simp]:
  "like_match eq (p # ps) [] \<longleftrightarrow> p = CHR ''%'' \<and> like_match eq ps []"
  by (cases ps) (auto simp: like_match.simps(2))

lemma like_match_Cons_Cons [simp]:
  "like_match eq (p # ps) (c # cs) =
     (if p = CHR ''%'' then like_match eq ps (c # cs) \<or> like_match eq (p # ps) cs
      else if p = CHR ''_'' then like_match eq ps cs
      else if p = CHR 0x5C then
        (case ps of [] \<Rightarrow> eq p c \<and> cs = [] | q # qs \<Rightarrow> eq q c \<and> like_match eq qs cs)
      else eq p c \<and> like_match eq ps cs)"
  by (auto simp: like_match.simps(2) split: list.splits)

lemma like_match_percent_all: "like_match eq ''%'' s"
  by (induction s) auto

lemma like_match_percent:
  "like_match eq (CHR ''%'' # ps) s \<longleftrightarrow> (\<exists>pre suf. s = pre @ suf \<and> like_match eq ps suf)"
proof (induction s)
  case Nil
  then show ?case by simp
next
  case (Cons c cs)
  show ?case
  proof
    assume "like_match eq (CHR ''%'' # ps) (c # cs)"
    then have "like_match eq ps (c # cs) \<or> like_match eq (CHR ''%'' # ps) cs"
      by simp
    then consider "like_match eq ps (c # cs)" | "like_match eq (CHR ''%'' # ps) cs"
      by blast
    then show "\<exists>pre suf. c # cs = pre @ suf \<and> like_match eq ps suf"
    proof cases
      case 1
      then have "c # cs = [] @ (c # cs) \<and> like_match eq ps (c # cs)" by simp
      then show ?thesis by blast
    next
      case 2
      then obtain pre suf where "cs = pre @ suf" "like_match eq ps suf"
        using Cons.IH by blast
      then have "c # cs = (c # pre) @ suf \<and> like_match eq ps suf" by simp
      then show ?thesis by blast
    qed
  next
    assume "\<exists>pre suf. c # cs = pre @ suf \<and> like_match eq ps suf"
    then obtain pre suf where ps: "c # cs = pre @ suf" "like_match eq ps suf"
      by blast
    show "like_match eq (CHR ''%'' # ps) (c # cs)"
    proof (cases pre)
      case Nil
      then have "like_match eq ps (c # cs)" using ps by simp
      then show ?thesis by simp
    next
      case (Cons a pre')
      then have "cs = pre' @ suf" using ps by simp
      then have "like_match eq (CHR ''%'' # ps) cs" using Cons.IH ps(2) by blast
      then show ?thesis by simp
    qed
  qed
qed

lemma empieza_iff:
  "empieza eq t x \<longleftrightarrow> (\<exists>mid post. x = mid @ post \<and> list_all2 eq t mid)"
proof (induction eq t x rule: empieza.induct)
  case (1 eq x)
  then show ?case by simp
next
  case (2 eq c cs)
  then show ?case by (simp add: list_all2_Cons1)
next
  case (3 eq c cs d ds)
  show ?case
  proof
    assume "empieza eq (c # cs) (d # ds)"
    then obtain mid post where "eq c d" "ds = mid @ post" "list_all2 eq cs mid"
      using 3 by auto
    then have "d # ds = (d # mid) @ post \<and> list_all2 eq (c # cs) (d # mid)" by simp
    then show "\<exists>mid post. d # ds = mid @ post \<and> list_all2 eq (c # cs) mid" by blast
  next
    assume "\<exists>mid post. d # ds = mid @ post \<and> list_all2 eq (c # cs) mid"
    then obtain mid post where m: "d # ds = mid @ post" "list_all2 eq (c # cs) mid"
      by blast
    then obtain m' where "mid = d # m'" "eq c d" "list_all2 eq cs m'" "ds = m' @ post"
      by (auto simp: list_all2_Cons1)
    then show "empieza eq (c # cs) (d # ds)"
      using 3 by auto
  qed
qed

text \<open>
  \<^const>\<open>ocurre\<close> is what its description says: a contiguous run of the field, related
  to the term character by character.
\<close>

lemma ocurre_iff:
  "ocurre eq t x \<longleftrightarrow> (\<exists>pre mid post. x = pre @ mid @ post \<and> list_all2 eq t mid)"
proof (induction x)
  case Nil
  then show ?case by auto
next
  case (Cons d ds)
  show ?case
  proof
    assume "ocurre eq t (d # ds)"
    then consider "empieza eq t (d # ds)" | "ocurre eq t ds" by auto
    then show "\<exists>pre mid post. d # ds = pre @ mid @ post \<and> list_all2 eq t mid"
    proof cases
      case 1
      then obtain mid post where "d # ds = [] @ mid @ post \<and> list_all2 eq t mid"
        by (auto simp: empieza_iff)
      then show ?thesis by blast
    next
      case 2
      then obtain pre mid post where "ds = pre @ mid @ post" "list_all2 eq t mid"
        using Cons.IH by blast
      then have "d # ds = (d # pre) @ mid @ post \<and> list_all2 eq t mid" by simp
      then show ?thesis by blast
    qed
  next
    assume "\<exists>pre mid post. d # ds = pre @ mid @ post \<and> list_all2 eq t mid"
    then obtain pre mid post where p: "d # ds = pre @ mid @ post" "list_all2 eq t mid"
      by blast
    show "ocurre eq t (d # ds)"
    proof (cases pre)
      case Nil
      then have "empieza eq t (d # ds)"
        using p by (auto simp: empieza_iff)
      then show ?thesis by simp
    next
      case (Cons a pre')
      then have "ds = pre' @ mid @ post" using p by simp
      then have "ocurre eq t ds" using Cons.IH p(2) by blast
      then show ?thesis by simp
    qed
  qed
qed

lemma like_match_plain:
  "set t \<inter> like_special = {} \<Longrightarrow>
   like_match eq (t @ ps) s
     \<longleftrightarrow> (\<exists>mid suf. s = mid @ suf \<and> list_all2 eq t mid \<and> like_match eq ps suf)"
proof (induction t arbitrary: s)
  case Nil
  then show ?case by simp
next
  case (Cons a t)
  then have a: "a \<noteq> CHR ''%''" "a \<noteq> CHR ''_''" "a \<noteq> CHR 0x5C"
    and t: "set t \<inter> like_special = {}"
    by (auto simp: like_special_def)
  show ?case
  proof (cases s)
    case Nil
    then show ?thesis using a by simp
  next
    case (Cons c cs)
    have "like_match eq ((a # t) @ ps) (c # cs) \<longleftrightarrow> eq a c \<and> like_match eq (t @ ps) cs"
      using a by simp
    also have "\<dots> \<longleftrightarrow> eq a c
        \<and> (\<exists>mid suf. cs = mid @ suf \<and> list_all2 eq t mid \<and> like_match eq ps suf)"
      using Cons.IH [OF t] by simp
    also have "\<dots> \<longleftrightarrow> (\<exists>mid suf. c # cs = mid @ suf \<and> list_all2 eq (a # t) mid
        \<and> like_match eq ps suf)"
      by (auto simp: list_all2_Cons1 Cons_eq_append_conv)
    finally show ?thesis using Cons by simp
  qed
qed

lemma like_match_contains:
  assumes "set t \<inter> like_special = {}"
  shows "like_match eq (''%'' @ t @ ''%'') s \<longleftrightarrow> ocurre eq t s"
proof -
  have "like_match eq (''%'' @ t @ ''%'') s
        \<longleftrightarrow> (\<exists>pre suf. s = pre @ suf \<and> like_match eq (t @ ''%'') suf)"
    using like_match_percent [of eq "t @ ''%''" s] by simp
  also have "\<dots> \<longleftrightarrow> (\<exists>pre mid post. s = pre @ mid @ post \<and> list_all2 eq t mid)"
    using like_match_plain [OF assms, of eq "''%''"] like_match_percent_all [of eq]
    by (simp only:) blast
  also have "\<dots> \<longleftrightarrow> ocurre eq t s"
    by (simp add: ocurre_iff)
  finally show ?thesis .
qed

lemma ocurre_map:
  "ocurre eq (map f t) (map f x) \<longleftrightarrow> ocurre (\<lambda>p c. eq (f p) (f c)) t x"
proof -
  have e: "empieza eq (map f t) (map f y) \<longleftrightarrow> empieza (\<lambda>p c. eq (f p) (f c)) t y" for y
    by (induction "\<lambda>p c. eq (f p) (f c)" t y rule: empieza.induct) simp_all
  show ?thesis
  proof (induction x)
    case Nil
    then show ?case by simp
  next
    case (Cons d ds)
    then show ?case using e [of "d # ds"] by simp
  qed
qed

lemma of_char_lower:
  "of_char (char_lower c) =
     (let n = (of_char c :: nat)
      in if (65 \<le> n \<and> n \<le> 90) \<or> (192 \<le> n \<and> n \<le> 222 \<and> n \<noteq> 215) then n + 32 else n)"
  by (simp add: char_lower_def Let_def)

lemma special_codes: "c \<in> like_special \<longleftrightarrow> (of_char c :: nat) \<in> {37, 95, 92}"
proof -
  have "(of_char c :: nat) = of_char d \<longleftrightarrow> c = d" for d
    by (rule of_char_eq_iff)
  from this [of "CHR ''%''"] this [of "CHR ''_''"] this [of "CHR 0x5C"]
  show ?thesis
    unfolding like_special_def by simp
qed

lemma char_lower_special: "char_lower c \<in> like_special \<longleftrightarrow> c \<in> like_special"
  unfolding special_codes of_char_lower by (auto simp: Let_def)

lemma lower_special: "set (lower t) \<inter> like_special = {} \<longleftrightarrow> set t \<inter> like_special = {}"
  by (auto simp: lower_def char_lower_special)

lemma lower_append: "lower (a @ b) = lower a @ lower b"
  by (simp add: lower_def)

lemma lower_percent: "lower ''%'' = ''%''"
  by (simp add: lower_def char_lower_def)

lemma ilike_contains:
  assumes "set t \<inter> like_special = {}"
  shows "ilike eq x (''%'' @ t @ ''%'') \<longleftrightarrow> ocurre (igual_lower eq) t x"
proof -
  have "lower (''%'' @ t @ ''%'') = ''%'' @ lower t @ ''%''"
    by (simp only: lower_append lower_percent)
  then have "ilike eq x (''%'' @ t @ ''%'') \<longleftrightarrow> ocurre eq (lower t) (lower x)"
    using like_match_contains [of "lower t" eq "lower x"] assms
    by (simp add: ilike_def lower_special)
  also have "\<dots> \<longleftrightarrow> ocurre (\<lambda>p c. eq (char_lower p) (char_lower c)) t x"
    unfolding lower_def by (rule ocurre_map)
  finally show ?thesis
    by (simp add: igual_lower_def [abs_def])
qed

lemma buscar_filter:
  assumes "set t \<inter> like_special = {}"
  shows "buscar_libros env s t
           = sort_key (\<lambda>l. clave env (titulo l)) (filter (coincide (igual env) t) (rows s))"
proof -
  have "(ilike (igual env) (titulo l) (''%'' @ t @ ''%'')
          \<or> ilike (igual env) (autor l) (''%'' @ t @ ''%'')
          \<or> (case genero l of None \<Rightarrow> False
              | Some g \<Rightarrow> ilike (igual env) g (''%'' @ t @ ''%'')))
        = coincide (igual env) t l" for l
    using ilike_contains [OF assms] by (simp add: coincide_def split: option.split)
  then show ?thesis
    unfolding buscar_libros_def Let_def by (simp only:)
qed

text \<open>
  Lowering two characters makes them equal exactly when they are the same letter, case
  ignored: under a collation that compares by code point the match of the search is the
  case-insensitive substring.
\<close>

lemma plegado_aritmetica:
  fixes n m :: nat
  shows "((if (65 \<le> n \<and> n \<le> 90) \<or> (192 \<le> n \<and> n \<le> 222 \<and> n \<noteq> 215) then n + 32 else n)
          = (if (65 \<le> m \<and> m \<le> 90) \<or> (192 \<le> m \<and> m \<le> 222 \<and> m \<noteq> 215) then m + 32 else m))
         \<longleftrightarrow> (n = m
              \<or> (((65 \<le> n \<and> n \<le> 90) \<or> (192 \<le> n \<and> n \<le> 222 \<and> n \<noteq> 215)) \<and> m = n + 32)
              \<or> (((65 \<le> m \<and> m \<le> 90) \<or> (192 \<le> m \<and> m \<le> 222 \<and> m \<noteq> 215)) \<and> n = m + 32))"
  by presburger

lemma misma_letra_lower: "char_lower c = char_lower d \<longleftrightarrow> misma_letra c d"
proof -
  have "char_lower c = char_lower d
        \<longleftrightarrow> (of_char (char_lower c) :: nat) = of_char (char_lower d)"
    by simp
  also have "\<dots> \<longleftrightarrow> ((of_char c :: nat) = of_char d
              \<or> (es_mayuscula c \<and> (of_char d :: nat) = of_char c + 32)
              \<or> (es_mayuscula d \<and> (of_char c :: nat) = of_char d + 32))"
    unfolding of_char_lower es_mayuscula_def Let_def by (rule plegado_aritmetica)
  also have "\<dots> \<longleftrightarrow> misma_letra c d"
    by (simp add: misma_letra_def)
  finally show ?thesis .
qed

lemma igual_lower_binario: "igual_lower (\<lambda>c d. c = d) = misma_letra"
  by (intro ext) (simp add: igual_lower_def misma_letra_lower)

lemma coincide_binario: "coincide (\<lambda>c d. c = d) t = matches_term t"
  by (intro ext)
    (simp add: coincide_def matches_term_def ci_substring_def igual_lower_binario
      split: option.split)

text \<open>
  Claim C2, as amended. For a search term with none of the characters \<^verbatim>\<open>%\<close>, \<^verbatim>\<open>_\<close>
  and backslash, \<^verbatim>\<open>buscar_libros\<close> returns exactly the rows in whose title, author or
  genre the term occurs as a contiguous run of characters (each such row as often as the
  table holds it, and no other row), a character of the term and one of the field being
  compared lowered and then as the collation of the columns compares them. The rows come
  ordered by title ascending under the collation, and the result is empty when no row
  matches. Under a collation that compares by code point, the rows returned are exactly
  those of which the term is a case-insensitive substring.
\<close>

theorem buscar_libros_substring:
  assumes "set termino \<inter> like_special = {}"
  shows "mset (buscar_libros env s termino)
           = filter_mset (coincide (igual env) termino) (mset (rows s))
       \<and> set (buscar_libros env s termino)
           = {l \<in> set (rows s). coincide (igual env) termino l}
       \<and> sorted (map (\<lambda>l. clave env (titulo l)) (buscar_libros env s termino))
       \<and> ((\<forall>l \<in> set (rows s). \<not> coincide (igual env) termino l)
            \<longrightarrow> buscar_libros env s termino = [])
       \<and> (igual env = (\<lambda>c d. c = d)
            \<longrightarrow> set (buscar_libros env s termino)
                  = {l \<in> set (rows s). matches_term termino l})"
  unfolding buscar_filter [OF assms]
  by (auto simp: filter_empty_conv coincide_binario)

theorem buscar_libros_substring_witness:
  "set ''GARC'' \<inter> like_special = {}
   \<and> igual entorno_binario = (\<lambda>c d. c = d)
   \<and> buscar_libros entorno_binario ejemplo_acentos ''GARC'' = rows ejemplo_acentos
   \<and> set (buscar_libros entorno_binario ejemplo_acentos ''GARC'')
       = {l \<in> set (rows ejemplo_acentos). matches_term ''GARC'' l}
   \<and> list_all (matches_term ''GARC'') (rows ejemplo_acentos)
   \<and> buscar_libros entorno_binario ejemplo_acentos ''garcia'' = []"
proof -
  have h: "set ''GARC'' \<inter> like_special = {}"
    by (simp add: like_special_def)
  have b: "igual entorno_binario = (\<lambda>c d. c = d)"
    by (simp add: entorno_binario_def)
  have m: "list_all (matches_term ''GARC'') (rows ejemplo_acentos)"
    by code_simp
  have r: "buscar_libros entorno_binario ejemplo_acentos ''GARC'' = rows ejemplo_acentos"
    by code_simp
  have n: "buscar_libros entorno_binario ejemplo_acentos ''garcia'' = []"
    by code_simp
  show ?thesis
    using buscar_libros_substring [OF h, of entorno_binario ejemplo_acentos] h b m r n
    by simp
qed

text \<open>
  The claim as stated fails in two ways. Under a collation that ignores accents, as the
  server's default does, the search for \<^verbatim>\<open>garcia\<close> returns the book whose author is
  written with an accented \<^verbatim>\<open>i\<close>, of no field of which \<^verbatim>\<open>garcia\<close> is a
  case-insensitive substring. And under any collation \<^verbatim>\<open>a_o\<close> finds the book of \<^const>\<open>ejemplo\<close>, in no
  field of which it occurs, because \<^verbatim>\<open>_\<close> in the pattern stands for any character
  (here the \<^verbatim>\<open>n\<close> of \<^verbatim>\<open>anos\<close>).
\<close>

theorem search_counterexample:
  "buscar_libros entorno_ci ejemplo_acentos ''garcia'' = rows ejemplo_acentos
   \<and> rows ejemplo_acentos \<noteq> []
   \<and> filter (matches_term ''garcia'') (rows ejemplo_acentos) = []
   \<and> buscar_libros entorno_binario ejemplo ''a_o'' = rows ejemplo
   \<and> rows ejemplo \<noteq> []
   \<and> filter (matches_term ''a_o'') (rows ejemplo) = []"
  by code_simp

subsection \<open>Listing\<close>

lemma listing_props:
  "sorted (map (\<lambda>l. clave env (titulo l)) (obtener_todos_los_libros env s))"
  "mset (obtener_todos_los_libros env s) = mset (rows s)"
  by (simp_all add: obtener_todos_los_libros_def)

text \<open>Sorting is fixed by what is sorted when no two elements have the same key.\<close>

lemma sort_key_determined:
  assumes "mset xs = mset ys" and "distinct (map f xs)"
  shows "sort_key f xs = sort_key f ys"
proof -
  have m: "mset (map f ys) = mset (map f xs)"
    using assms(1) by (metis mset_map)
  have d2: "distinct (map f ys)"
    using assms(2) m by (metis mset_eq_imp_distinct_iff)
  have s: "set xs = set ys"
    using assms(1) by (rule mset_eq_setD)
  have "inj_on f (set (sort_key f xs) \<union> set (sort_key f ys))"
    using assms(2) s by (simp add: distinct_map)
  moreover have "sorted (map f (sort_key f xs))" by simp
  moreover have "distinct (map f (sort_key f xs))"
    using assms(2) by (metis mset_eq_imp_distinct_iff mset_map mset_sort)
  moreover have "sorted (map f (sort_key f ys))" by simp
  moreover have "distinct (map f (sort_key f ys))"
    using d2 by (metis mset_eq_imp_distinct_iff mset_map mset_sort)
  moreover have "set (sort_key f xs) = set (sort_key f ys)" using s by simp
  ultimately show ?thesis by (rule map_sorted_distinct_set_unique)
qed

lemma map_insort_key:
  "map g (insort_key (\<lambda>x. f (g x)) a xs) = insort_key f (g a) (map g xs)"
  by (induction xs) simp_all

lemma map_sort_key: "map g (sort_key (\<lambda>x. f (g x)) xs) = sort_key f (map g xs)"
  by (induction xs) (simp_all add: map_insort_key)

lemma listing_contenido:
  "map contenido (obtener_todos_los_libros env s)
     = sort_key (\<lambda>b. clave env (fst b)) (map contenido (rows s))"
proof -
  have "(\<lambda>l. clave env (titulo l)) = (\<lambda>l. clave env (fst (contenido l)))"
    by (simp add: contenido_def)
  then show ?thesis
    unfolding obtener_todos_los_libros_def
    using map_sort_key [of contenido "\<lambda>b. clave env (fst b)" "rows s"] by simp
qed

lemma listing_determined:
  assumes "mset (rows s1) = mset (rows s2)"
    and "distinct (map (\<lambda>l. clave env (titulo l)) (rows s1))"
  shows "obtener_todos_los_libros env s1 = obtener_todos_los_libros env s2"
  unfolding obtener_todos_los_libros_def using assms by (rule sort_key_determined)

lemma listing_contenido_determined:
  assumes "mset (map contenido (rows s1)) = mset (map contenido (rows s2))"
    and "distinct (map (\<lambda>l. clave env (titulo l)) (rows s1))"
  shows "map contenido (obtener_todos_los_libros env s1)
           = map contenido (obtener_todos_los_libros env s2)"
proof -
  have "map (\<lambda>l. clave env (titulo l)) (rows s1)
          = map (\<lambda>b. clave env (fst b)) (map contenido (rows s1))"
    by (simp add: contenido_def)
  then have "distinct (map (\<lambda>b. clave env (fst b)) (map contenido (rows s1)))"
    using assms(2) by (simp only:)
  then show ?thesis
    unfolding listing_contenido using assms(1) sort_key_determined by blast
qed

text \<open>The rows of a table built by insertions are the books inserted, in that order.\<close>

lemma insertar_todos_rows:
  assumes "wf_store s" and "list_all tupla_valida bs"
  shows "map contenido (rows (insertar_todos s bs)) = map contenido (rows s) @ bs
       \<and> wf_store (insertar_todos s bs)"
  using assms
proof (induction bs arbitrary: s)
  case Nil
  then show ?case by simp
next
  case (Cons b bs)
  obtain t a g e where b: "b = (t, a, g, e)" by (cases b)
  have v: "valid_values (Some t) (Some a) g (Some e)"
    using Cons.prems(2) by (simp add: b tupla_valida_def)
  then have f: "fila_nueva (Some t) (Some a) g (Some e) = Inr (t, a, g, e)"
    by (rule valid_valuesD) simp
  let ?s1 = "fst (insertar_libro s (Some t) (Some a) g (Some e))"
  have wf1: "wf_store ?s1"
    using Cons.prems(1) f by (rule insertar_valid(2))
  have r1: "map contenido (rows ?s1) = map contenido (rows s) @ [b]"
    using insertar_valid(1) [OF Cons.prems(1) f] by (simp add: contenido_def b)
  have "list_all tupla_valida bs" using Cons.prems(2) by simp
  then have "map contenido (rows (insertar_todos ?s1 bs)) = map contenido (rows ?s1) @ bs
       \<and> wf_store (insertar_todos ?s1 bs)"
    using Cons.IH [OF wf1] by simp
  then show ?case
    using r1 by (simp add: b)
qed

lemma wf_empty_store: "wf_store empty_store"
  by (simp add: wf_store_def ids_def empty_store_def)

lemma listing_insertion_order:
  assumes "mset bs1 = mset bs2" and "list_all tupla_valida bs1"
    and "distinct (map (\<lambda>b. clave env (fst b)) bs1)"
  shows "map contenido (obtener_todos_los_libros env (insertar_todos empty_store bs1))
           = map contenido (obtener_todos_los_libros env (insertar_todos empty_store bs2))"
proof -
  have "set bs1 = set bs2" using assms(1) by (rule mset_eq_setD)
  then have v2: "list_all tupla_valida bs2"
    using assms(2) by (simp add: list_all_iff)
  have r1: "map contenido (rows (insertar_todos empty_store bs1)) = bs1"
    using insertar_todos_rows [OF wf_empty_store assms(2)] by (simp add: empty_store_def)
  have r2: "map contenido (rows (insertar_todos empty_store bs2)) = bs2"
    using insertar_todos_rows [OF wf_empty_store v2] by (simp add: empty_store_def)
  show ?thesis
    unfolding listing_contenido r1 r2 using assms(1,3) by (rule sort_key_determined)
qed

text \<open>
  Claim C6, as amended. \<^verbatim>\<open>obtener_todos_los_libros\<close> returns every row of the table,
  ordered by title ascending under the collation. When no two books have the same title
  under the collation, the books listed, key aside, come in the same sequence for any two
  tables that hold the same books, and so for the tables that two sequences of insertions
  of the same valid books in different orders leave; two tables that hold the same rows,
  keys included, are listed alike.
\<close>

theorem listing_sorted_determined:
  "sorted (map (\<lambda>l. clave env (titulo l)) (obtener_todos_los_libros env s))
   \<and> mset (obtener_todos_los_libros env s) = mset (rows s)
   \<and> (mset (map contenido (rows s1)) = mset (map contenido (rows s2))
        \<and> distinct (map (\<lambda>l. clave env (titulo l)) (rows s1))
       \<longrightarrow> map contenido (obtener_todos_los_libros env s1)
             = map contenido (obtener_todos_los_libros env s2))
   \<and> (mset bs1 = mset bs2 \<and> list_all tupla_valida bs1
        \<and> distinct (map (\<lambda>b. clave env (fst b)) bs1)
       \<longrightarrow> map contenido (obtener_todos_los_libros env (insertar_todos empty_store bs1))
             = map contenido (obtener_todos_los_libros env (insertar_todos empty_store bs2)))
   \<and> (mset (rows s1) = mset (rows s2)
        \<and> distinct (map (\<lambda>l. clave env (titulo l)) (rows s1))
       \<longrightarrow> obtener_todos_los_libros env s1 = obtener_todos_los_libros env s2)"
  using listing_props [of env s] listing_contenido_determined [of s1 s2 env]
    listing_insertion_order [of bs1 bs2 env] listing_determined [of s1 s2 env]
  by blast

lemma tuplas_validas:
  "tupla_valida ficciones_1" "tupla_valida ficciones_2" "tupla_valida el_aleph"
  by (simp_all add: tupla_valida_def valid_values_def col_check_def ficciones_1_def
      ficciones_2_def el_aleph_def estado_leido_def estado_no_leido_def)

theorem listing_sorted_determined_witness:
  "mset [ficciones_1, el_aleph] = mset [el_aleph, ficciones_1]
   \<and> list_all tupla_valida [ficciones_1, el_aleph]
   \<and> distinct (map (\<lambda>b. clave entorno_binario (fst b)) [ficciones_1, el_aleph])
   \<and> map contenido
        (obtener_todos_los_libros entorno_binario
           (insertar_todos empty_store [ficciones_1, el_aleph]))
       = [el_aleph, ficciones_1]
   \<and> map contenido
        (obtener_todos_los_libros entorno_binario
           (insertar_todos empty_store [el_aleph, ficciones_1]))
       = [el_aleph, ficciones_1]"
proof -
  have m: "mset [ficciones_1, el_aleph] = mset [el_aleph, ficciones_1]"
    by simp
  have v: "list_all tupla_valida [ficciones_1, el_aleph]"
    by (simp add: tuplas_validas)
  have d: "distinct (map (\<lambda>b. clave entorno_binario (fst b)) [ficciones_1, el_aleph])"
    by (simp add: entorno_binario_def ficciones_1_def el_aleph_def)
  have c: "map contenido
        (obtener_todos_los_libros entorno_binario
           (insertar_todos empty_store [el_aleph, ficciones_1]))
       = [el_aleph, ficciones_1]"
    by code_simp
  show ?thesis
    using listing_sorted_determined [of entorno_binario empty_store empty_store empty_store
        "[ficciones_1, el_aleph]" "[el_aleph, ficciones_1]"] m v d c
    by metis
qed

text \<open>
  The claim as stated fails for books with equal titles: two books titled alike are
  listed in the order they were inserted, so the two tables, which hold the same two
  books, are listed in different sequences.
\<close>

theorem listing_ties_counterexample:
  "mset [ficciones_1, ficciones_2] = mset [ficciones_2, ficciones_1]
   \<and> list_all tupla_valida [ficciones_1, ficciones_2]
   \<and> mset (map contenido (rows (insertar_todos empty_store [ficciones_1, ficciones_2])))
       = mset (map contenido (rows (insertar_todos empty_store [ficciones_2, ficciones_1])))
   \<and> map contenido
        (obtener_todos_los_libros entorno_binario
           (insertar_todos empty_store [ficciones_1, ficciones_2]))
       = [ficciones_1, ficciones_2]
   \<and> map contenido
        (obtener_todos_los_libros entorno_binario
           (insertar_todos empty_store [ficciones_2, ficciones_1]))
       = [ficciones_2, ficciones_1]
   \<and> [ficciones_1, ficciones_2] \<noteq> [ficciones_2, ficciones_1]"
proof -
  have a: "map contenido
        (obtener_todos_los_libros entorno_binario
           (insertar_todos empty_store [ficciones_1, ficciones_2]))
       = [ficciones_1, ficciones_2]"
    by code_simp
  have b: "map contenido
        (obtener_todos_los_libros entorno_binario
           (insertar_todos empty_store [ficciones_2, ficciones_1]))
       = [ficciones_2, ficciones_1]"
    by code_simp
  have r: "map contenido (rows (insertar_todos empty_store bs)) = bs"
    if "list_all tupla_valida bs" for bs
    using insertar_todos_rows [OF wf_empty_store that] by (simp add: empty_store_def)
  have n: "ficciones_1 \<noteq> ficciones_2"
    by (simp add: ficciones_1_def ficciones_2_def)
  show ?thesis
    using a b n r [of "[ficciones_1, ficciones_2]"] r [of "[ficciones_2, ficciones_1]"]
    by (simp add: tuplas_validas)
qed

subsection \<open>The table\<close>



lemma length_truncar_long: "3 \<le> col \<Longrightarrow> col < length x \<Longrightarrow> length (truncar col x) = col"
  by (simp add: truncar_def)




lemma filas_ok: "list_all (\<lambda>l. genero l \<noteq> None) ls \<Longrightarrow> filas ls = (map fila ls, None)"
  by (induction ls) (auto simp: celdas_def fila_def Let_def)

lemma filas_none:
  "list_ex (\<lambda>l. genero l = None) ls \<Longrightarrow>
   filas ls = (map fila (takeWhile (\<lambda>l. genero l \<noteq> None) ls), Some TypeError)"
proof (induction ls)
  case Nil
  then show ?case by simp
next
  case (Cons l ls)
  show ?case
  proof (cases "genero l")
    case None
    then show ?thesis by (simp add: celdas_def Let_def)
  next
    case (Some g)
    then have "list_ex (\<lambda>l. genero l = None) ls" using Cons.prems by simp
    then show ?thesis using Cons.IH Some by (simp add: celdas_def fila_def Let_def)
  qed
qed








text \<open>
  Claim C10. When some book of the list has no genre, \<^verbatim>\<open>mostrar_libros_tabla\<close> ends in
  the \<^verbatim>\<open>TypeError\<close> of \<^verbatim>\<open>len(None)\<close>, and only then: with a genre in every book it
  returns. What is printed before the error is the header and the lines of the books
  that precede the first one without a genre; the table is not completed.
\<close>

theorem table_none_genre:
  "(list_ex (\<lambda>l. genero l = None) libros \<longleftrightarrow> snd (mostrar_libros_tabla libros) = Some TypeError)
   \<and> (list_ex (\<lambda>l. genero l = None) libros \<longrightarrow>
        fst (mostrar_libros_tabla libros)
          = [separador CHR ''-'', encabezado, separador CHR ''='']
            @ map fila (takeWhile (\<lambda>l. genero l \<noteq> None) libros))
   \<and> (list_all (\<lambda>l. genero l \<noteq> None) libros \<longleftrightarrow> snd (mostrar_libros_tabla libros) = None)"
proof (cases "list_ex (\<lambda>l. genero l = None) libros")
  case True
  then have ne: "libros \<noteq> []" by auto
  have "\<not> list_all (\<lambda>l. genero l \<noteq> None) libros"
    using True by (auto simp: list_all_iff list_ex_iff)
  then show ?thesis
    using True ne by (simp add: mostrar_libros_tabla_def filas_none)
next
  case False
  then have all: "list_all (\<lambda>l. genero l \<noteq> None) libros"
    by (auto simp: list_all_iff list_ex_iff)
  then show ?thesis
    using False by (simp add: mostrar_libros_tabla_def filas_ok)
qed


theorem table_none_genre_witness:
  "list_ex (\<lambda>l. genero l = None) [libro_largo, libro_sin_genero, libro_ancho]
   \<and> mostrar_libros_tabla [libro_largo, libro_sin_genero, libro_ancho]
       = ([separador CHR ''-'', encabezado, separador CHR ''='', fila libro_largo],
          Some TypeError)
   \<and> snd (mostrar_libros_tabla [libro_largo, libro_ancho]) = None"
proof -
  have h: "list_ex (\<lambda>l. genero l = None) [libro_largo, libro_sin_genero, libro_ancho]"
    by (simp add: libro_sin_genero_def)
  have g: "genero libro_largo \<noteq> None" "genero libro_sin_genero = None"
    "genero libro_ancho \<noteq> None"
    by (simp_all add: libro_largo_def libro_sin_genero_def libro_ancho_def)
  show ?thesis
    using table_none_genre [of "[libro_largo, libro_sin_genero, libro_ancho]"]
      table_none_genre [of "[libro_largo, libro_ancho]"] h g
    by (cases "mostrar_libros_tabla [libro_largo, libro_sin_genero, libro_ancho]") simp
qed

end
